theory Spec2Isabelle
  imports Complex_Main
begin

section \<open>JavaScript strings\<close>

text \<open>
  Strings are lists of characters. The helpers below are the \<open>String.prototype\<close>
  methods the server uses: \<open>endsWith\<close>, \<open>startsWith\<close>, \<open>includes\<close> (named \<open>includesStr\<close> here),
  \<open>slice(0, -1)\<close> (which is \<open>butlast\<close>) and \<open>Array.prototype.join\<close>.
\<close>

definition endsWith :: "string \<Rightarrow> string \<Rightarrow> bool" where
  "endsWith s suf =
     (length suf \<le> length s \<and> drop (length s - length suf) s = suf)"

definition startsWith :: "string \<Rightarrow> string \<Rightarrow> bool" where
  "startsWith s pre = (take (length pre) s = pre)"

fun includesStr :: "string \<Rightarrow> string \<Rightarrow> bool" where
  "includesStr [] sub = (sub = [])"
| "includesStr (c # cs) sub = (startsWith (c # cs) sub \<or> includesStr cs sub)"

fun join :: "string \<Rightarrow> string list \<Rightarrow> string" where
  "join sep [] = []"
| "join sep [x] = x"
| "join sep (x # y # ys) = x @ sep @ join sep (y # ys)"

section \<open>normalizeGitLabApiUrl\<close>

text \<open>
  The parameter is \<open>url?: string\<close>: \<open>None\<close> is \<open>undefined\<close>. The test
  \<open>!url\<close> holds for \<open>undefined\<close> and for the empty string.
\<close>

definition normalizeGitLabApiUrl :: "string option \<Rightarrow> string" where
  "normalizeGitLabApiUrl url =
     (case url of
        None \<Rightarrow> ''https://gitlab.com/api/v4''
      | Some u \<Rightarrow>
          if u = [] then ''https://gitlab.com/api/v4''
          else
            let normalizedUrl = (if endsWith u ''/'' then butlast u else u)
            in if \<not> endsWith normalizedUrl ''/api/v4''
                  \<and> \<not> endsWith normalizedUrl ''/api/v4/''
               then normalizedUrl @ ''/api/v4''
               else normalizedUrl)"

text \<open>The inputs on which one call leaves a trailing slash behind.\<close>

definition endsWithApiV4DoubleSlash :: "string option \<Rightarrow> bool" where
  "endsWithApiV4DoubleSlash url =
     (case url of None \<Rightarrow> False | Some u \<Rightarrow> endsWith u ''/api/v4//'')"

section \<open>Values shared by the handlers\<close>

text \<open>Decimal rendering of a number, as a template literal does for an integer.\<close>

fun showNat :: "nat \<Rightarrow> string" where
  "showNat n =
     (if n < 10 then [char_of (48 + n)]
      else showNat (n div 10) @ [char_of (48 + n mod 10)])"

text \<open>
  An optional string parameter is \<open>None\<close> when it is \<open>undefined\<close>. In a condition
  JavaScript takes \<open>undefined\<close> and the empty string as false.
\<close>

definition truthy :: "string option \<Rightarrow> bool" where
  "truthy v = (case v of None \<Rightarrow> False | Some s \<Rightarrow> s \<noteq> [])"

definition strOf :: "string option \<Rightarrow> string" where
  "strOf v = (case v of None \<Rightarrow> [] | Some s \<Rightarrow> s)"

datatype json =
    JNull
  | JBool bool
  | JNum real
  | JStr string
  | JArr "json list"
  | JObj "(string \<times> json) list"

record response =
  status :: nat
  statusText :: string
  data :: json

text \<open>
  One entry of \<open>ZodError.errors\<close>: the path to the failing field (object keys and
  array indices) and the reason.
\<close>

datatype path_elem = Key string | Index nat

datatype zod_issue = ZodIssue (issue_path: "path_elem list") (issue_message: string)

text \<open>
  The exceptions that cross the functions modelled here. All four are instances of
  \<open>Error\<close>; an axios failure carries the response when the remote answered.
\<close>

datatype exn =
    Error string
  | TypeError string
  | ZodError "zod_issue list"
  | AxiosError string "response option"

text \<open>
  What the code uses from outside the repository: built-ins of the runtime, and the
  schema objects of \<open>./gitlab/schema.js\<close>, which is not part of the sources at hand.
  A schema's \<open>parse\<close> either returns the parsed value or throws a \<open>ZodError\<close>
  with its issues. \<open>URL_href s\<close> is \<open>new URL(s).toString()\<close>: the
  constructor throws when \<open>s\<close> is not an absolute URL, and the address it
  serialises is normalised (dot segments are resolved). \<open>multiply\<close> is the product
  of two numbers as the runtime computes it, in IEEE double precision.
\<close>

record file_content =
  content :: string
  encoding :: string
  commit_id :: "string option"
  last_commit_id :: "string option"
  other_fields :: json

datatype GitLabContent = FileContent file_content | DirectoryContent "json list"

record platform =
  JSON_stringify :: "json \<Rightarrow> string"
  JSON_stringify_pretty :: "json \<Rightarrow> string"
  encodeURIComponent :: "string \<Rightarrow> string"
  base64_to_utf8 :: "string \<Rightarrow> string"
  URL_href :: "string \<Rightarrow> exn + string"
  multiply :: "real \<Rightarrow> real \<Rightarrow> real"
  number_toString :: "real \<Rightarrow> string"
  zod_message :: "zod_issue list \<Rightarrow> string"
  GitLabContentSchema_parse :: "json \<Rightarrow> zod_issue list + GitLabContent"
  GitLabRepositorySchema_default_branch :: "json \<Rightarrow> zod_issue list + string option"
  GitLabCreateUpdateFileResponseSchema_parse :: "json \<Rightarrow> zod_issue list + json"

definition exn_message :: "platform \<Rightarrow> exn \<Rightarrow> string" where
  "exn_message pf e =
     (case e of
        Error m \<Rightarrow> m
      | TypeError m \<Rightarrow> m
      | ZodError issues \<Rightarrow> zod_message pf issues
      | AxiosError m r \<Rightarrow> m)"

text \<open>
  A collaborator that is called with a request and answers from its own state. A call
  through \<open>logged\<close> appends the request to the log of calls made so far, so that the
  calls a function makes, and their order, are part of what it returns.
\<close>

definition logged ::
  "('c \<Rightarrow> 'w \<Rightarrow> 'r \<times> 'w) \<Rightarrow> 'c \<Rightarrow> 'c list \<times> 'w \<Rightarrow> 'r \<times> ('c list \<times> 'w)" where
  "logged f c s = (case f c (snd s) of (r, w') \<Rightarrow> (r, (fst s @ [c], w')))"

section \<open>GitLab: error handling and file access\<close>

record http_request =
  http_method :: string
  url :: string
  searchParams :: "(string \<times> string) list"
  body :: "(string \<times> string) list"

datatype axios_outcome = Resolved response | Rejected exn

type_synonym 'w remote = "http_request \<Rightarrow> 'w \<Rightarrow> axios_outcome \<times> 'w"

type_synonym 'w net = "http_request list \<times> 'w"

definition errorBody :: "platform \<Rightarrow> response \<Rightarrow> string" where
  "errorBody pf r = (case data r of JStr s \<Rightarrow> s | d \<Rightarrow> JSON_stringify pf d)"

text \<open>\<open>None\<close>: the function returns; \<open>Some e\<close>: it throws \<open>e\<close>.\<close>

definition handleGitLabError :: "platform \<Rightarrow> response \<Rightarrow> exn option" where
  "handleGitLabError pf r =
     (if status r < 200 \<or> status r \<ge> 300 then
        if status r = 403
           \<and> includesStr (errorBody pf r) ''User API Key Rate limit exceeded''
        then Some (Error (''GitLab API Rate Limit Exceeded: '' @ errorBody pf r))
        else Some (Error (''GitLab API error: '' @ showNat (status r) @ '' ''
                          @ statusText r @ [CHR 0x0A] @ errorBody pf r))
      else None)"

text \<open>
  The catch block shared by the request functions:
  \<open>if (axios.isAxiosError(error) && error.response) await handleGitLabError(error.response); throw error;\<close>
  The result is the exception that leaves the block.
\<close>

definition rethrowGitLab :: "platform \<Rightarrow> exn \<Rightarrow> exn" where
  "rethrowGitLab pf error =
     (case error of
        AxiosError m (Some r) \<Rightarrow>
          (case handleGitLabError pf r of Some e \<Rightarrow> e | None \<Rightarrow> error)
      | _ \<Rightarrow> error)"

definition getDefaultBranchRef ::
  "platform \<Rightarrow> string \<Rightarrow> 'w remote \<Rightarrow> string \<Rightarrow> 'w net \<Rightarrow> (exn + string) \<times> 'w net" where
  "getDefaultBranchRef pf GITLAB_API_URL remote projectId s =
     (case URL_href pf (GITLAB_API_URL @ ''/projects/'' @ encodeURIComponent pf projectId) of
        Inl invalid \<Rightarrow> (Inl invalid, s)
      | Inr address \<Rightarrow>
          (case logged remote
                  \<lparr>http_method = ''GET'', url = address, searchParams = [], body = []\<rparr> s of
             (Resolved r, s') \<Rightarrow>
               (case GitLabRepositorySchema_default_branch pf (data r) of
                  Inl issues \<Rightarrow> (Inl (rethrowGitLab pf (ZodError issues)), s')
                | Inr default_branch \<Rightarrow>
                    (Inr (case default_branch of None \<Rightarrow> ''main'' | Some b \<Rightarrow> b), s'))
           | (Rejected error, s') \<Rightarrow> (Inl (rethrowGitLab pf error), s')))"

text \<open>The catch block of \<open>getFileContents\<close>, with its own answer to status 404.\<close>

definition getFileContents_catch :: "platform \<Rightarrow> string \<Rightarrow> exn \<Rightarrow> exn" where
  "getFileContents_catch pf filePath error =
     (case error of
        AxiosError m ro \<Rightarrow>
          (case ro of
             Some r \<Rightarrow>
               if status r = 404 then Error (''File not found: '' @ filePath)
               else (case handleGitLabError pf r of Some e \<Rightarrow> e | None \<Rightarrow> error)
           | None \<Rightarrow> error)
      | _ \<Rightarrow> error)"

definition decodeContent :: "platform \<Rightarrow> GitLabContent \<Rightarrow> GitLabContent" where
  "decodeContent pf parsedData =
     (case parsedData of
        FileContent f \<Rightarrow>
          if content f \<noteq> []
          then FileContent (f\<lparr>content := base64_to_utf8 pf (content f), encoding := ''utf8''\<rparr>)
          else parsedData
      | DirectoryContent entries \<Rightarrow> parsedData)"

definition getFileContents ::
  "platform \<Rightarrow> string \<Rightarrow> 'w remote \<Rightarrow> string \<Rightarrow> string \<Rightarrow> string option \<Rightarrow> 'w net
     \<Rightarrow> (exn + GitLabContent) \<times> 'w net" where
  "getFileContents pf GITLAB_API_URL remote projectId filePath ref s =
     (case (if \<not> truthy ref then getDefaultBranchRef pf GITLAB_API_URL remote projectId s
            else (Inr (strOf ref), s)) of
        (Inl e, s1) \<Rightarrow> (Inl e, s1)
      | (Inr ref', s1) \<Rightarrow>
          (case URL_href pf (GITLAB_API_URL @ ''/projects/'' @ encodeURIComponent pf projectId
                             @ ''/repository/files/'' @ encodeURIComponent pf filePath) of
             Inl invalid \<Rightarrow> (Inl invalid, s1)
           | Inr address \<Rightarrow>
               (case logged remote
                       \<lparr>http_method = ''GET'', url = address,
                        searchParams = [(''ref'', ref')], body = []\<rparr> s1 of
                  (Resolved r, s2) \<Rightarrow>
                    (case GitLabContentSchema_parse pf (data r) of
                       Inl issues \<Rightarrow>
                         (Inl (getFileContents_catch pf filePath (ZodError issues)), s2)
                     | Inr parsedData \<Rightarrow> (Inr (decodeContent pf parsedData), s2))
                | (Rejected error, s2) \<Rightarrow>
                    (Inl (getFileContents_catch pf filePath error), s2))))"

text \<open>
  The revision markers \<open>createOrUpdateFile\<close> adds to the request body after a read
  that succeeded, and after a read whose failure it takes for an absent file.
\<close>

definition markerFromFile :: "string \<Rightarrow> string option \<Rightarrow> string option \<Rightarrow> (string \<times> string) list" where
  "markerFromFile key given found =
     (if \<not> truthy given \<and> truthy found then [(key, strOf found)]
      else if truthy given then [(key, strOf given)]
      else [])"

definition markersAfterRead ::
  "GitLabContent \<Rightarrow> string option \<Rightarrow> string option \<Rightarrow> (string \<times> string) list" where
  "markersAfterRead fileData given_commit_id given_last_commit_id =
     (case fileData of
        FileContent f \<Rightarrow>
          markerFromFile ''commit_id'' given_commit_id (commit_id f)
          @ markerFromFile ''last_commit_id'' given_last_commit_id (last_commit_id f)
      | DirectoryContent entries \<Rightarrow> [])"

definition markersGiven :: "string option \<Rightarrow> string option \<Rightarrow> (string \<times> string) list" where
  "markersGiven given_commit_id given_last_commit_id =
     (if truthy given_commit_id then [(''commit_id'', strOf given_commit_id)] else [])
     @ (if truthy given_last_commit_id
        then [(''last_commit_id'', strOf given_last_commit_id)] else [])"

definition sendFile ::
  "platform \<Rightarrow> 'w remote \<Rightarrow> string \<Rightarrow> string \<Rightarrow> (string \<times> string) list \<Rightarrow> 'w net
     \<Rightarrow> (exn + json) \<times> 'w net" where
  "sendFile pf remote meth target reqBody s =
     (case logged remote \<lparr>http_method = meth, url = target, searchParams = [], body = reqBody\<rparr> s of
        (Resolved r, s') \<Rightarrow>
          (case GitLabCreateUpdateFileResponseSchema_parse pf (data r) of
             Inl issues \<Rightarrow> (Inl (rethrowGitLab pf (ZodError issues)), s')
           | Inr parsed \<Rightarrow> (Inr parsed, s'))
      | (Rejected error, s') \<Rightarrow> (Inl (rethrowGitLab pf error), s'))"

definition createOrUpdateFile ::
  "platform \<Rightarrow> string \<Rightarrow> 'w remote \<Rightarrow> string \<Rightarrow> string \<Rightarrow> string \<Rightarrow> string \<Rightarrow> string
     \<Rightarrow> string option \<Rightarrow> string option \<Rightarrow> string option \<Rightarrow> 'w net
     \<Rightarrow> (exn + json) \<times> 'w net" where
  "createOrUpdateFile pf GITLAB_API_URL remote projectId filePath fileText commitMessage branch
       previousPath given_last_commit_id given_commit_id s =
     (case URL_href pf (GITLAB_API_URL @ ''/projects/'' @ encodeURIComponent pf projectId
                        @ ''/repository/files/'' @ encodeURIComponent pf filePath) of
        Inl invalid \<Rightarrow> (Inl invalid, s)
      | Inr target \<Rightarrow>
          (let reqBody = [(''branch'', branch), (''content'', fileText),
                          (''commit_message'', commitMessage), (''encoding'', ''text'')]
                         @ (if truthy previousPath
                            then [(''previous_path'', strOf previousPath)] else [])
           in case getFileContents pf GITLAB_API_URL remote projectId filePath (Some branch) s of
                (Inr fileData, s1) \<Rightarrow>
                  sendFile pf remote ''PUT'' target
                    (reqBody @ markersAfterRead fileData given_commit_id given_last_commit_id) s1
              | (Inl error, s1) \<Rightarrow>
                  if \<not> includesStr (exn_message pf error) ''File not found''
                  then (Inl error, s1)
                  else sendFile pf remote ''POST'' target
                         (reqBody @ markersGiven given_commit_id given_last_commit_id) s1))"

section \<open>GitHub tools\<close>

text \<open>
  The handlers of \<open>build/tools/github/index.js\<close> never throw: every failure is
  returned as an object with an \<open>error\<close> field. The octokit client is a collaborator.
  \<open>repos.getContent\<close> answers with an array for a directory and with a file object
  otherwise.
\<close>

record github_file =
  file_content_base64 :: string
  file_sha :: string
  file_size :: nat
  file_name :: string
  file_path :: string
  file_html_url :: string

datatype github_content = GHDirectory "json list" | GHFile github_file

type_synonym 'w get_content =
  "string \<times> string \<times> string \<times> string option \<Rightarrow> 'w \<Rightarrow> (exn + github_content) \<times> 'w"

record file_result =
  result_content :: string
  result_encoding :: string
  result_sha :: string
  result_size :: nat
  result_name :: string
  result_path :: string
  result_url :: string

datatype file_tool_result = FileError string | FileResult file_result

definition github_get_file_content ::
  "platform \<Rightarrow> 'w get_content \<Rightarrow> string \<Rightarrow> string \<Rightarrow> string \<Rightarrow> string option
     \<Rightarrow> (string \<times> string \<times> string \<times> string option) list \<times> 'w
     \<Rightarrow> file_tool_result \<times> ((string \<times> string \<times> string \<times> string option) list \<times> 'w)" where
  "github_get_file_content pf getContent owner repo path ref s =
     (case logged getContent (owner, repo, path, ref) s of
        (Inl error, s') \<Rightarrow>
          (FileError (''Failed to get file content: '' @ exn_message pf error), s')
      | (Inr (GHDirectory entries), s') \<Rightarrow>
          (FileError ''Path points to a directory, not a file'', s')
      | (Inr (GHFile f), s') \<Rightarrow>
          (FileResult
             \<lparr>result_content = base64_to_utf8 pf (file_content_base64 f),
              result_encoding = ''utf-8'',
              result_sha = file_sha f,
              result_size = file_size f,
              result_name = file_name f,
              result_path = file_path f,
              result_url = file_html_url f\<rparr>, s'))"

text \<open>
  The calls \<open>github_pr_action\<close> makes: \<open>pulls.createReview\<close> (owner, repo,
  pull number, event, body), \<open>pulls.update\<close> (owner, repo, pull number, state) and
  \<open>issues.createComment\<close> (owner, repo, issue number, body).
\<close>

datatype octokit_call =
    PullsCreateReview string string real string "string option"
  | PullsUpdate string string real string
  | IssuesCreateComment string string real string

type_synonym 'w octokit = "octokit_call \<Rightarrow> 'w \<Rightarrow> (exn + json) \<times> 'w"

datatype pr_action_result = ReviewResult json | PullRequestResult json | ActionError string

definition actionFailed :: "platform \<Rightarrow> exn \<Rightarrow> pr_action_result" where
  "actionFailed pf error = ActionError (''Failed to perform action: '' @ exn_message pf error)"

definition github_pr_action ::
  "platform \<Rightarrow> 'w octokit \<Rightarrow> string \<Rightarrow> string \<Rightarrow> real \<Rightarrow> string \<Rightarrow> string option
     \<Rightarrow> octokit_call list \<times> 'w \<Rightarrow> pr_action_result \<times> (octokit_call list \<times> 'w)" where
  "github_pr_action pf octokit owner repo prNumber action comment s =
     (if action = ''approve'' then
        (case logged octokit (PullsCreateReview owner repo prNumber ''APPROVE'' comment) s of
           (Inr d, s1) \<Rightarrow> (ReviewResult d, s1)
         | (Inl error, s1) \<Rightarrow> (actionFailed pf error, s1))
      else if action = ''close'' then
        (case logged octokit (PullsUpdate owner repo prNumber ''closed'') s of
           (Inl error, s1) \<Rightarrow> (actionFailed pf error, s1)
         | (Inr d, s1) \<Rightarrow>
             if truthy comment then
               (case logged octokit (IssuesCreateComment owner repo prNumber (strOf comment)) s1 of
                  (Inl error, s2) \<Rightarrow> (actionFailed pf error, s2)
                | (Inr c, s2) \<Rightarrow> (PullRequestResult d, s2))
             else (PullRequestResult d, s1))
      else (ActionError ''Invalid action'', s))"

section \<open>Recognising the rate-limit error\<close>



section \<open>The GitLab server: listing and calling tools\<close>

text \<open>
  A tool as the listing advertises it. \<open>inputSchema\<close> is
  \<open>zodToJsonSchema(S)\<close> for a schema \<open>S\<close> of \<open>./gitlab/schema.js\<close>; the
  model keeps the name of \<open>S\<close>.
\<close>

record tool =
  name :: string
  description :: string
  inputSchema :: string

definition allTools :: "tool list" where
  "allTools =
     [\<lparr>name = ''create_or_update_file'',
       description = ''Create or update a file in a GitLab repository'',
       inputSchema = ''CreateOrUpdateFileSchema''\<rparr>,
      \<lparr>name = ''search_repositories'',
       description = ''Search for GitLab projects'',
       inputSchema = ''SearchRepositoriesSchema''\<rparr>,
      \<lparr>name = ''create_repository'',
       description = ''Create a new GitLab project'',
       inputSchema = ''CreateRepositorySchema''\<rparr>,
      \<lparr>name = ''get_file_contents'',
       description = ''Get the contents of a file or directory from a GitLab project'',
       inputSchema = ''GetFileContentsSchema''\<rparr>,
      \<lparr>name = ''push_files'',
       description = ''Push multiple files to a GitLab project in a single commit'',
       inputSchema = ''PushFilesSchema''\<rparr>,
      \<lparr>name = ''create_issue'',
       description = ''Create a new issue in a GitLab project'',
       inputSchema = ''CreateIssueSchema''\<rparr>,
      \<lparr>name = ''create_merge_request'',
       description = ''Create a new merge request in a GitLab project'',
       inputSchema = ''CreateMergeRequestSchema''\<rparr>,
      \<lparr>name = ''fork_repository'',
       description = ''Fork a GitLab project to your account or specified namespace'',
       inputSchema = ''ForkRepositorySchema''\<rparr>,
      \<lparr>name = ''create_branch'',
       description = ''Create a new branch in a GitLab project'',
       inputSchema = ''CreateBranchSchema''\<rparr>,
      \<lparr>name = ''get_merge_request'',
       description = ''Get details of a merge request'',
       inputSchema = ''GetMergeRequestSchema''\<rparr>,
      \<lparr>name = ''get_merge_request_diffs'',
       description = ''Get the changes/diffs of a merge request'',
       inputSchema = ''GetMergeRequestDiffsSchema''\<rparr>,
      \<lparr>name = ''update_merge_request'',
       description = ''Update a merge request'',
       inputSchema = ''UpdateMergeRequestSchema''\<rparr>,
      \<lparr>name = ''create_note'',
       description = ''Create a new note (comment) to an issue or merge request'',
       inputSchema = ''CreateNoteSchema''\<rparr>,
      \<lparr>name = ''list_merge_request_discussions'',
       description = ''List discussion items for a merge request'',
       inputSchema = ''ListMergeRequestDiscussionsSchema''\<rparr>,
      \<lparr>name = ''update_merge_request_note'',
       description = ''Modify an existing merge request thread note'',
       inputSchema = ''UpdateMergeRequestNoteSchema''\<rparr>,
      \<lparr>name = ''list_issues'',
       description = ''List issues in a GitLab project with filtering options'',
       inputSchema = ''ListIssuesSchema''\<rparr>,
      \<lparr>name = ''get_issue'',
       description = ''Get details of a specific issue in a GitLab project'',
       inputSchema = ''GetIssueSchema''\<rparr>,
      \<lparr>name = ''update_issue'',
       description = ''Update an issue in a GitLab project'',
       inputSchema = ''UpdateIssueSchema''\<rparr>,
      \<lparr>name = ''delete_issue'',
       description = ''Delete an issue from a GitLab project'',
       inputSchema = ''DeleteIssueSchema''\<rparr>,
      \<lparr>name = ''list_issue_links'',
       description = ''List all issue links for a specific issue'',
       inputSchema = ''ListIssueLinksSchema''\<rparr>,
      \<lparr>name = ''get_issue_link'',
       description = ''Get a specific issue link'',
       inputSchema = ''GetIssueLinkSchema''\<rparr>,
      \<lparr>name = ''create_issue_link'',
       description = ''Create an issue link between two issues'',
       inputSchema = ''CreateIssueLinkSchema''\<rparr>,
      \<lparr>name = ''delete_issue_link'',
       description = ''Delete an issue link'',
       inputSchema = ''DeleteIssueLinkSchema''\<rparr>,
      \<lparr>name = ''list_namespaces'',
       description = ''List all namespaces available to the current user'',
       inputSchema = ''ListNamespacesSchema''\<rparr>,
      \<lparr>name = ''get_namespace'',
       description = ''Get details of a namespace by ID or path'',
       inputSchema = ''GetNamespaceSchema''\<rparr>,
      \<lparr>name = ''verify_namespace'',
       description = ''Verify if a namespace path exists'',
       inputSchema = ''VerifyNamespaceSchema''\<rparr>,
      \<lparr>name = ''get_project'',
       description = ''Get details of a specific project'',
       inputSchema = ''GetProjectSchema''\<rparr>,
      \<lparr>name = ''list_projects'',
       description = ''Get a list of projects with id, name, description, web_url and other useful information'',
       inputSchema = ''ListProjectsSchema''\<rparr>,
      \<lparr>name = ''list_labels'',
       description = ''List labels for a project'',
       inputSchema = ''ListLabelsSchema''\<rparr>,
      \<lparr>name = ''get_label'',
       description = ''Get a single label from a project'',
       inputSchema = ''GetLabelSchema''\<rparr>,
      \<lparr>name = ''create_label'',
       description = ''Create a new label in a project'',
       inputSchema = ''CreateLabelSchema''\<rparr>,
      \<lparr>name = ''update_label'',
       description = ''Update an existing label in a project'',
       inputSchema = ''UpdateLabelSchema''\<rparr>,
      \<lparr>name = ''delete_label'',
       description = ''Delete a label from a project'',
       inputSchema = ''DeleteLabelSchema''\<rparr>,
      \<lparr>name = ''list_group_projects'',
       description = ''List projects in a GitLab group with filtering options'',
       inputSchema = ''ListGroupProjectsSchema''\<rparr>,
      \<lparr>name = ''list_open_merge_requests'',
       description = ''Lists all open merge requests in the project'',
       inputSchema = ''ListOpenMergeRequestsSchema''\<rparr>,
      \<lparr>name = ''get_merge_request_details'',
       description = ''Get details about a specific merge request of a project like title, description, author, assignee, state, and more'',
       inputSchema = ''GitLabMergeRequestSchema''\<rparr>,
      \<lparr>name = ''get_merge_request_comments'',
       description = ''Get general and file diff comments of a certain merge request'',
       inputSchema = ''GetMergeRequestCommentsSchema''\<rparr>,
      \<lparr>name = ''add_merge_request_diff_comment'',
       description = ''Add a comment of a merge request at a specific line in a file diff'',
       inputSchema = ''AddMergeRequestDiffCommentSchema''\<rparr>]"

definition readOnlyTools :: "string list" where
  "readOnlyTools =
     [''search_repositories'',
      ''get_file_contents'',
      ''get_merge_request'',
      ''get_merge_request_diffs'',
      ''list_merge_request_discussions'',
      ''list_issues'',
      ''get_issue'',
      ''list_issue_links'',
      ''get_issue_link'',
      ''list_namespaces'',
      ''get_namespace'',
      ''verify_namespace'',
      ''get_project'',
      ''list_projects'',
      ''list_labels'',
      ''get_label'',
      ''list_group_projects'']"

text \<open>
  The state of the module: the process environment it was started in, the platform,
  the \<open>parse\<close> of each schema (by the schema's name) and the work each case of the
  dispatcher does once its arguments are parsed (the calls to the remote), which yields
  the value the case serialises or throws.
\<close>

record ('a, 'w) server =
  process_env :: "string \<rightharpoonup> string"
  server_platform :: platform
  schema_parse :: "string \<Rightarrow> (string \<times> json) list \<Rightarrow> zod_issue list + 'a"
  run :: "string \<times> 'a \<Rightarrow> 'w \<Rightarrow> (exn + json) \<times> 'w"

definition GITLAB_READ_ONLY_MODE :: "('a, 'w) server \<Rightarrow> bool" where
  "GITLAB_READ_ONLY_MODE srv = (process_env srv ''GITLAB_READ_ONLY_MODE'' = Some ''true'')"

definition listTools :: "('a, 'w) server \<Rightarrow> tool list" where
  "listTools srv =
     (if GITLAB_READ_ONLY_MODE srv
      then filter (\<lambda>tool. name tool \<in> set readOnlyTools) allTools
      else allTools)"

text \<open>
  A call request: \<open>request.params.name\<close> and \<open>request.params.arguments\<close>. The
  protocol's request schema makes the arguments an object or leaves them out.
\<close>

record request =
  tool_name :: string
  arguments :: "(string \<times> json) list option"

text \<open>The response \<open>{ content: [{ type: 'text', text }] }\<close>.\<close>

datatype call_result = Content string

text \<open>
  The \<open>switch\<close> of the dispatcher, in the order of its cases: each case first parses
  the arguments with the schema named here.
\<close>

definition toolSchema :: "string \<Rightarrow> string option" where
  "toolSchema =
     map_of
       [(''fork_repository'', ''ForkRepositorySchema''),
        (''add_merge_request_diff_comment'', ''AddMergeRequestDiffCommentSchema''),
        (''create_branch'', ''CreateBranchSchema''),
        (''search_repositories'', ''SearchRepositoriesSchema''),
        (''create_repository'', ''CreateRepositorySchema''),
        (''get_file_contents'', ''GetFileContentsSchema''),
        (''create_or_update_file'', ''CreateOrUpdateFileSchema''),
        (''push_files'', ''PushFilesSchema''),
        (''create_issue'', ''CreateIssueSchema''),
        (''create_merge_request'', ''CreateMergeRequestSchema''),
        (''update_merge_request_note'', ''UpdateMergeRequestNoteSchema''),
        (''get_merge_request'', ''GetMergeRequestSchema''),
        (''get_merge_request_diffs'', ''GetMergeRequestDiffsSchema''),
        (''update_merge_request'', ''UpdateMergeRequestSchema''),
        (''list_merge_request_discussions'', ''ListMergeRequestDiscussionsSchema''),
        (''list_namespaces'', ''ListNamespacesSchema''),
        (''get_namespace'', ''GetNamespaceSchema''),
        (''verify_namespace'', ''VerifyNamespaceSchema''),
        (''get_project'', ''GetProjectSchema''),
        (''list_projects'', ''ListProjectsSchema''),
        (''create_note'', ''CreateNoteSchema''),
        (''list_issues'', ''ListIssuesSchema''),
        (''get_issue'', ''GetIssueSchema''),
        (''update_issue'', ''UpdateIssueSchema''),
        (''delete_issue'', ''DeleteIssueSchema''),
        (''list_issue_links'', ''ListIssueLinksSchema''),
        (''get_issue_link'', ''GetIssueLinkSchema''),
        (''create_issue_link'', ''CreateIssueLinkSchema''),
        (''delete_issue_link'', ''DeleteIssueLinkSchema''),
        (''list_labels'', ''ListLabelsSchema''),
        (''get_label'', ''GetLabelSchema''),
        (''create_label'', ''CreateLabelSchema''),
        (''update_label'', ''UpdateLabelSchema''),
        (''delete_label'', ''DeleteLabelSchema''),
        (''list_group_projects'', ''ListGroupProjectsSchema''),
        (''list_open_merge_requests'', ''ListOpenMergeRequestsSchema''),
        (''get_merge_request_details'', ''GetMergeRequestSchema''),
        (''get_merge_request_comments'', ''GetMergeRequestCommentsSchema'')]"

text \<open>
  The schema the listing declares for a tool name: the \<open>inputSchema\<close> of the first
  tool of \<open>allTools\<close> with that name.
\<close>

definition declaredSchema :: "string \<Rightarrow> string option" where
  "declaredSchema toolName = map_of (map (\<lambda>t. (name t, inputSchema t)) allTools) toolName"

definition showPathElem :: "path_elem \<Rightarrow> string" where
  "showPathElem e = (case e of Key k \<Rightarrow> k | Index i \<Rightarrow> showNat i)"

definition issueText :: "zod_issue \<Rightarrow> string" where
  "issueText e = join ''.'' (map showPathElem (issue_path e)) @ '': '' @ issue_message e"

text \<open>The outer catch block: a \<open>ZodError\<close> is replaced, any other error is rethrown.\<close>

definition callTool_catch :: "exn \<Rightarrow> exn" where
  "callTool_catch error =
     (case error of
        ZodError issues \<Rightarrow> Error (''Invalid arguments: '' @ join '', '' (map issueText issues))
      | _ \<Rightarrow> error)"

definition textContent :: "platform \<Rightarrow> json \<Rightarrow> call_result" where
  "textContent pf v = Content (JSON_stringify_pretty pf v)"

text \<open>
  The dispatcher. The state is the log of the handler invocations made so far, each with
  the arguments it was given, and the state of the remote. The case
  \<open>fork_repository\<close> has a catch block of its own around its handler.
\<close>

definition callTool ::
  "('a, 'w) server \<Rightarrow> request \<Rightarrow> (string \<times> 'a) list \<times> 'w
     \<Rightarrow> (exn + call_result) \<times> ((string \<times> 'a) list \<times> 'w)" where
  "callTool srv request s =
     (case arguments request of
        None \<Rightarrow> (Inl (callTool_catch (Error ''Arguments are required'')), s)
      | Some raw \<Rightarrow>
          (case toolSchema (tool_name request) of
             None \<Rightarrow>
               (Inl (callTool_catch (Error (''Unknown tool: '' @ tool_name request))), s)
           | Some schema \<Rightarrow>
               (case schema_parse srv schema raw of
                  Inl issues \<Rightarrow> (Inl (callTool_catch (ZodError issues)), s)
                | Inr args \<Rightarrow>
                    (case logged (run srv) (tool_name request, args) s of
                       (Inr v, s') \<Rightarrow> (Inr (textContent (server_platform srv) v), s')
                     | (Inl error, s') \<Rightarrow>
                         if tool_name request = ''fork_repository''
                         then (Inr (textContent (server_platform srv)
                                      (JObj [(''error'',
                                              JStr (''Failed to fork repository: ''
                                                    @ exn_message (server_platform srv) error))])),
                               s')
                         else (Inl (callTool_catch error), s')))))"

section \<open>Regular expressions of the script tool's deny-list\<close>

text \<open>
  The patterns are written without the \<open>u\<close> flag and with the \<open>i\<close> flag. A
  character is one code unit below 256. In that range \<open>\s\<close> (and the white space that
  \<open>trim\<close> removes) is tab, line feed, vertical tab, form feed, carriage return, space
  and no-break space; \<open>\w\<close> is an ASCII letter, a digit or the underscore; under
  \<open>i\<close> two characters are compared after ASCII letters are put in upper case.
\<close>

definition isSpace :: "char \<Rightarrow> bool" where
  "isSpace c = (of_char c \<in> {9, 10, 11, 12, 13, 32, 160 :: nat})"

definition isLetter :: "char \<Rightarrow> bool" where
  "isLetter c =
     ((65 :: nat) \<le> of_char c \<and> of_char c \<le> (90 :: nat)
      \<or> (97 :: nat) \<le> of_char c \<and> of_char c \<le> (122 :: nat))"

definition isWordChar :: "char \<Rightarrow> bool" where
  "isWordChar c =
     (isLetter c \<or> (48 :: nat) \<le> of_char c \<and> of_char c \<le> (57 :: nat) \<or> c = CHR ''_'')"

definition canonicalize :: "char \<Rightarrow> char" where
  "canonicalize c =
     (if (97 :: nat) \<le> of_char c \<and> of_char c \<le> (122 :: nat)
      then char_of (of_char c - (32 :: nat)) else c)"

definition trim :: "string \<Rightarrow> string" where
  "trim s = rev (dropWhile isSpace (rev (dropWhile isSpace s)))"

datatype regex =
    Boundary
  | Chars string
  | OneOf "char \<Rightarrow> bool"
  | OneOrMore "char \<Rightarrow> bool"
  | Seq regex regex
  | Alt regex regex
  | Opt regex

text \<open>
  A position in the subject is the character before it, if any, and the rest of the
  subject. \<open>matchesAt r pos\<close> lists the positions at which a match of \<open>r\<close> that starts
  at \<open>pos\<close> can end; \<open>test\<close> asks for a match from some start position.
\<close>

type_synonym position = "char option \<times> string"

definition wordBefore :: "position \<Rightarrow> bool" where
  "wordBefore pos = (case fst pos of None \<Rightarrow> False | Some c \<Rightarrow> isWordChar c)"

definition wordAfter :: "position \<Rightarrow> bool" where
  "wordAfter pos = (case snd pos of [] \<Rightarrow> False | c # cs \<Rightarrow> isWordChar c)"

fun matchChars :: "string \<Rightarrow> position \<Rightarrow> position list" where
  "matchChars [] pos = [pos]"
| "matchChars (c # cs) (p, []) = []"
| "matchChars (c # cs) (p, x # xs) =
     (if canonicalize x = canonicalize c then matchChars cs (Some x, xs) else [])"

fun matchRun :: "(char \<Rightarrow> bool) \<Rightarrow> string \<Rightarrow> position list" where
  "matchRun P [] = []"
| "matchRun P (x # xs) = (if P x then (Some x, xs) # matchRun P xs else [])"

fun matchesAt :: "regex \<Rightarrow> position \<Rightarrow> position list" where
  "matchesAt Boundary pos = (if wordBefore pos \<noteq> wordAfter pos then [pos] else [])"
| "matchesAt (Chars cs) pos = matchChars cs pos"
| "matchesAt (OneOf P) pos =
     (case snd pos of [] \<Rightarrow> [] | x # xs \<Rightarrow> if P x then [(Some x, xs)] else [])"
| "matchesAt (OneOrMore P) pos = matchRun P (snd pos)"
| "matchesAt (Seq a b) pos = concat (map (matchesAt b) (matchesAt a pos))"
| "matchesAt (Alt a b) pos = matchesAt a pos @ matchesAt b pos"
| "matchesAt (Opt a) pos = matchesAt a pos @ [pos]"

fun searchFrom :: "regex \<Rightarrow> char option \<Rightarrow> string \<Rightarrow> bool" where
  "searchFrom r p [] = (matchesAt r (p, []) \<noteq> [])"
| "searchFrom r p (x # xs) = (matchesAt r (p, x # xs) \<noteq> [] \<or> searchFrom r (Some x) xs)"

definition test :: "regex \<Rightarrow> string \<Rightarrow> bool" where
  "test r s = searchFrom r None s"

fun seqs :: "regex list \<Rightarrow> regex" where
  "seqs [] = Chars []"
| "seqs [r] = r"
| "seqs (r # rs) = Seq r (seqs rs)"

text \<open>
  The five patterns, in the order of the source:
  \<^verbatim>\<open>/\brm\s+(-rf?|--recursive)\s+[\/~]/i\<close>,
  \<^verbatim>\<open>/\bformat\s+([a-z]:)?\//i\<close>, \<^verbatim>\<open>/\bmkfs/i\<close>,
  \<^verbatim>\<open>/\bdd\s+if=/i\<close> and \<^verbatim>\<open>/\bwipe/i\<close>.
\<close>

definition dangerousCommands :: "regex list" where
  "dangerousCommands =
     [seqs [Boundary, Chars ''rm'', OneOrMore isSpace,
            Alt (Seq (Chars ''-r'') (Opt (Chars ''f''))) (Chars ''--recursive''),
            OneOrMore isSpace, OneOf (\<lambda>c. c = CHR ''/'' \<or> c = CHR ''~'')],
      seqs [Boundary, Chars ''format'', OneOrMore isSpace,
            Opt (Seq (OneOf isLetter) (Chars '':'')), Chars ''/''],
      seqs [Boundary, Chars ''mkfs''],
      seqs [Boundary, Chars ''dd'', OneOrMore isSpace, Chars ''if=''],
      seqs [Boundary, Chars ''wipe'']]"

section \<open>The script tool\<close>

text \<open>
  \<open>exec\<close> of \<open>child_process\<close>, promisified, is a collaborator. It resolves with the
  captured output when the process exits with status 0 and rejects otherwise: with the
  exit status as \<open>code\<close>, with the signal that killed the process, or, when it
  refuses its options and starts no process, with the name of that error as \<open>code\<close>.
\<close>

datatype js_code = CodeNumber int | CodeString string | CodeNone

record exec_error =
  err_message :: "string option"
  err_code :: js_code
  err_signal :: "string option"
  err_stdout :: "string option"
  err_stderr :: "string option"

datatype exec_outcome = ExecResolved string string | ExecRejected exec_error

record exec_options =
  opt_timeout :: real
  opt_maxBuffer :: nat

type_synonym 'w exec = "string \<times> exec_options \<Rightarrow> 'w \<Rightarrow> exec_outcome \<times> 'w"

text \<open>The object the handler returns; a field that is not set is \<open>None\<close>.\<close>

record script_result =
  res_error :: "string option"
  res_stdout :: "string option"
  res_stderr :: "string option"
  res_exitCode :: "js_code option"

definition scriptEmpty :: "string \<Rightarrow> bool" where
  "scriptEmpty script = (script = [] \<or> trim script = [])"

definition timeoutInvalid :: "real \<Rightarrow> bool" where
  "timeoutInvalid timeoutSeconds = (timeoutSeconds \<le> 0 \<or> timeoutSeconds > 300)"

definition dangerous :: "string \<Rightarrow> bool" where
  "dangerous script = list_ex (\<lambda>pattern. test pattern script) dangerousCommands"

definition emptyScriptError :: script_result where
  "emptyScriptError =
     \<lparr>res_error = Some ''Script cannot be empty'',
      res_stdout = None, res_stderr = None, res_exitCode = None\<rparr>"

definition invalidTimeoutError :: script_result where
  "invalidTimeoutError =
     \<lparr>res_error = Some ''Timeout must be between 1 and 300 seconds'',
      res_stdout = None, res_stderr = None, res_exitCode = None\<rparr>"

definition dangerousScriptError :: script_result where
  "dangerousScriptError =
     \<lparr>res_error = Some (''Script contains potentially dangerous commands ''
                         @ ''that could cause data loss or system damage''),
      res_stdout = Some [], res_stderr = Some [],
      res_exitCode = Some (CodeNumber (- 1))\<rparr>"

text \<open>\<open>error.code || -1\<close>\<close>

definition codeOrMinusOne :: "js_code \<Rightarrow> js_code" where
  "codeOrMinusOne c =
     (case c of
        CodeNumber n \<Rightarrow> if n = 0 then CodeNumber (- 1) else CodeNumber n
      | CodeString s \<Rightarrow> if s = [] then CodeNumber (- 1) else CodeString s
      | CodeNone \<Rightarrow> CodeNumber (- 1))"

definition execFailed :: "platform \<Rightarrow> real \<Rightarrow> exec_error \<Rightarrow> script_result" where
  "execFailed pf timeoutSeconds e =
     (if err_signal e = Some ''SIGTERM'' then
        \<lparr>res_error = Some (''Script execution timed out after ''
                            @ number_toString pf timeoutSeconds @ '' seconds''),
         res_stdout = Some (strOf (err_stdout e)),
         res_stderr = Some (strOf (err_stderr e)),
         res_exitCode = Some (CodeNumber (- 1))\<rparr>
      else
        \<lparr>res_error = Some (if truthy (err_message e) then strOf (err_message e)
                            else ''Unknown execution error''),
         res_stdout = Some (strOf (err_stdout e)),
         res_stderr = Some (strOf (err_stderr e)),
         res_exitCode = Some (codeOrMinusOne (err_code e))\<rparr>)"

definition execute_comand_line_script ::
  "platform \<Rightarrow> 'w exec \<Rightarrow> string \<Rightarrow> real option \<Rightarrow> (string \<times> exec_options) list \<times> 'w
     \<Rightarrow> script_result \<times> ((string \<times> exec_options) list \<times> 'w)" where
  "execute_comand_line_script pf exec script timeoutArg s =
     (let timeoutSeconds = (case timeoutArg of None \<Rightarrow> 30 | Some t \<Rightarrow> t)
      in if scriptEmpty script then (emptyScriptError, s)
         else if timeoutInvalid timeoutSeconds then (invalidTimeoutError, s)
         else if dangerous script then (dangerousScriptError, s)
         else
           (case logged exec
                   (script, \<lparr>opt_timeout = multiply pf timeoutSeconds 1000,
                             opt_maxBuffer = 1024 * 1024\<rparr>) s of
              (ExecResolved out err, s') \<Rightarrow>
                (\<lparr>res_error = None, res_stdout = Some out, res_stderr = Some err,
                  res_exitCode = Some (CodeNumber 0)\<rparr>, s')
            | (ExecRejected e, s') \<Rightarrow> (execFailed pf timeoutSeconds e, s')))"

section \<open>Stub collaborators\<close>

text \<open>
  Concrete collaborators, for running the definitions on explicit inputs. The stub
  platform renders a JSON string as its text, \<open>null\<close> as \<open>null\<close> and every
  other value as \<open>{}\<close>, leaves strings unencoded and undecoded, accepts the
  addresses that start with \<open>https://\<close> as they are and refuses every other, multiplies
  exactly, and parses an array as a directory listing and an object as a file.
\<close>

definition stub_file :: "(string \<times> json) list \<Rightarrow> file_content" where
  "stub_file kvs =
     \<lparr>content = (case map_of kvs ''content'' of Some (JStr c) \<Rightarrow> c | _ \<Rightarrow> []),
      encoding = ''base64'',
      commit_id = (case map_of kvs ''commit_id'' of Some (JStr c) \<Rightarrow> Some c | _ \<Rightarrow> None),
      last_commit_id =
        (case map_of kvs ''last_commit_id'' of Some (JStr c) \<Rightarrow> Some c | _ \<Rightarrow> None),
      other_fields = JNull\<rparr>"

definition stub_platform :: platform where
  "stub_platform =
     \<lparr>JSON_stringify = (\<lambda>j. ''{}''),
      JSON_stringify_pretty =
        (\<lambda>j. case j of JStr t \<Rightarrow> t | JNull \<Rightarrow> ''null'' | _ \<Rightarrow> ''{}''),
      encodeURIComponent = (\<lambda>s. s),
      base64_to_utf8 = (\<lambda>s. s),
      URL_href = (\<lambda>s. if startsWith s ''https://'' then Inr s
                      else Inl (TypeError ''Invalid URL'')),
      multiply = (\<lambda>a b. a * b),
      number_toString = (\<lambda>x. ''30''),
      zod_message = (\<lambda>issues. ''[]''),
      GitLabContentSchema_parse =
        (\<lambda>j. case j of
               JArr entries \<Rightarrow> Inr (DirectoryContent entries)
             | JObj kvs \<Rightarrow> Inr (FileContent (stub_file kvs))
             | _ \<Rightarrow> Inl [ZodIssue [] ''Invalid input'']),
      GitLabRepositorySchema_default_branch = (\<lambda>j. Inr None),
      GitLabCreateUpdateFileResponseSchema_parse = (\<lambda>j. Inr j)\<rparr>"

text \<open>A remote that answers every read with status 500 and the body \<open>File not found\<close>.\<close>

definition remote_read_fails_500 :: "unit remote" where
  "remote_read_fails_500 req w =
     (if http_method req = ''GET''
      then (Rejected (AxiosError ''Request failed with status code 500''
              (Some \<lparr>status = 500, statusText = ''Internal Server Error'',
                     data = JStr ''File not found''\<rparr>)), w)
      else (Resolved \<lparr>status = 201, statusText = ''Created'', data = JNull\<rparr>, w))"

text \<open>A remote that answers every read with a directory listing of two entries.\<close>

definition remote_directory :: "unit remote" where
  "remote_directory req w =
     (Resolved \<lparr>status = 200, statusText = ''OK'',
                data = JArr [JStr ''README.md'', JStr ''src'']\<rparr>, w)"

text \<open>
  Two GitHub stubs. With the first, closing the pull request succeeds and posting the
  comment fails; with the second, closing the pull request itself fails, with the same
  message.
\<close>

definition octokit_comment_fails :: "unit octokit" where
  "octokit_comment_fails c w =
     (case c of
        IssuesCreateComment owner repo n b \<Rightarrow> (Inl (Error ''Server Error''), w)
      | _ \<Rightarrow> (Inr (JObj [(''state'', JStr ''closed'')]), w))"

definition octokit_update_fails :: "unit octokit" where
  "octokit_update_fails c w =
     (case c of
        PullsUpdate owner repo n st \<Rightarrow> (Inl (Error ''Server Error''), w)
      | _ \<Rightarrow> (Inr JNull, w))"

text \<open>A GitHub stub that accepts every call and answers with an empty object.\<close>

definition octokit_accepts :: "unit octokit" where
  "octokit_accepts c w = (Inr (JObj []), w)"

definition getContent_directory :: "unit get_content" where
  "getContent_directory p w = (Inr (GHDirectory [JStr ''docs/a.md'']), w)"

text \<open>
  A stub server. \<open>GitLabMergeRequestSchema\<close>, the schema of a merge request as the
  remote returns it, asks for a string \<open>title\<close>; every other schema asks for a
  string \<open>project_id\<close>; a schema returns the arguments as they are. Every handler
  answers with the name of its tool, and the state of the remote counts the handlers that
  have run.
\<close>

definition stub_parse :: "string \<Rightarrow> (string \<times> json) list \<Rightarrow> zod_issue list + (string \<times> json) list" where
  "stub_parse schema raw =
     (let required = (if schema = ''GitLabMergeRequestSchema'' then ''title''
                      else ''project_id'')
      in case map_of raw required of
           Some (JStr p) \<Rightarrow> Inr raw
         | Some other \<Rightarrow> Inl [ZodIssue [Key required] ''Expected string'']
         | None \<Rightarrow> Inl [ZodIssue [Key required] ''Required''])"

definition stub_server :: "(string \<rightharpoonup> string) \<Rightarrow> ((string \<times> json) list, nat) server" where
  "stub_server env =
     \<lparr>process_env = env,
      server_platform = stub_platform,
      schema_parse = stub_parse,
      run = (\<lambda>c w. (Inr (JStr (fst c)), Suc w))\<rparr>"

text \<open>
  A shell that runs \<open>exit 3\<close>: the process ends with status 3 and \<open>exec\<close> rejects.
  Every other script succeeds with the output \<open>ok\<close>.
\<close>

definition stub_exec :: "unit exec" where
  "stub_exec c w =
     (if fst c = ''exit 3''
      then (ExecRejected
              \<lparr>err_message = Some ''Command failed: exit 3'', err_code = CodeNumber 3,
               err_signal = None, err_stdout = Some [], err_stderr = Some []\<rparr>, w)
      else (ExecResolved ''ok'' [], w))"

section \<open>Properties of the tool listing and of the dispatcher\<close>

lemma listTools_read_only_names:
  "map name (listTools (stub_server [''GITLAB_READ_ONLY_MODE'' \<mapsto> ''true'']))
     = readOnlyTools"
  by code_simp

text \<open>
  C1: in read-only mode every tool of the listing has its name in \<open>readOnlyTools\<close>
  (the listing is \<open>allTools\<close> filtered by that test, in the same order); with
  read-only mode off the listing is \<open>allTools\<close>.
\<close>

theorem listTools_read_only:
  "(GITLAB_READ_ONLY_MODE srv \<longrightarrow>
      (\<forall>tool \<in> set (listTools srv). name tool \<in> set readOnlyTools)
      \<and> listTools srv = filter (\<lambda>tool. name tool \<in> set readOnlyTools) allTools)
   \<and> (\<not> GITLAB_READ_ONLY_MODE srv \<longrightarrow> listTools srv = allTools)"
  by (auto simp: listTools_def)

theorem listTools_read_only_witness:
  "GITLAB_READ_ONLY_MODE (stub_server [''GITLAB_READ_ONLY_MODE'' \<mapsto> ''true''])
   \<and> map name (listTools (stub_server [''GITLAB_READ_ONLY_MODE'' \<mapsto> ''true''])) = readOnlyTools
   \<and> \<not> GITLAB_READ_ONLY_MODE (stub_server [''GITLAB_READ_ONLY_MODE'' \<mapsto> ''TRUE''])
   \<and> listTools (stub_server [''GITLAB_READ_ONLY_MODE'' \<mapsto> ''TRUE'']) = allTools"
proof -
  let ?on = "stub_server [''GITLAB_READ_ONLY_MODE'' \<mapsto> ''true'']"
  let ?off = "stub_server [''GITLAB_READ_ONLY_MODE'' \<mapsto> ''TRUE'']"
  have on: "GITLAB_READ_ONLY_MODE ?on"
    by (simp add: GITLAB_READ_ONLY_MODE_def stub_server_def)
  have off: "\<not> GITLAB_READ_ONLY_MODE ?off"
    by (simp add: GITLAB_READ_ONLY_MODE_def stub_server_def)
  from listTools_read_only[of ?off] off have all: "listTools ?off = allTools"
    by blast
  from on listTools_read_only_names off all show ?thesis
    by blast
qed

lemma logged_eq: "f c w = (r, w') \<Longrightarrow> logged f c (l, w) = (r, (l @ [c], w'))"
  by (simp add: logged_def)

text \<open>
  A call whose arguments pass the schema of its case: the handler of the case runs once,
  on the parsed arguments, and the call ends as the handler does. A value is serialised
  into the response; an error is rethrown (a \<open>ZodError\<close> reworded), except by
  \<open>fork_repository\<close>, which answers with the message of the error.
\<close>

lemma callTool_valid:
  assumes "arguments request = Some raw"
    and "toolSchema (tool_name request) = Some schema"
    and "schema_parse srv schema raw = Inr args"
    and "run srv (tool_name request, args) w = (outcome, wA)"
  shows "callTool srv request (lg, w)
         = (case outcome of
              Inr v \<Rightarrow> Inr (Content (JSON_stringify_pretty (server_platform srv) v))
            | Inl failure \<Rightarrow>
                if tool_name request = ''fork_repository''
                then Inr (Content (JSON_stringify_pretty (server_platform srv)
                            (JObj [(''error'',
                                    JStr (''Failed to fork repository: ''
                                          @ exn_message (server_platform srv) failure))])))
                else Inl (callTool_catch failure),
            (lg @ [(tool_name request, args)], wA))"
  using assms
  by (simp add: callTool_def logged_eq textContent_def split: sum.split)



text \<open>
  The schema a case parses with is the schema the listing declares for the tool of that
  name, with one exception: \<open>get_merge_request_details\<close> is declared with
  \<open>GitLabMergeRequestSchema\<close>, the schema of the merge request objects the remote
  returns, and its case parses with \<open>GetMergeRequestSchema\<close>, the schema of the tool
  \<open>get_merge_request\<close>.
\<close>

lemma declared_schema_is_parsed_schema:
  "list_all (\<lambda>t. toolSchema (name t) = declaredSchema (name t)
               \<or> name t = ''get_merge_request_details'') allTools"
  by code_simp

text \<open>
  On every request, an argument object that fails the schema a case parses with is
  answered with \<open>Invalid arguments: \<close> followed by the issues, each as its dotted path,
  a colon and its reason, joined with commas; the state is unchanged, so no handler has
  run and no remote call was made. Every handler invocation is for arguments that the
  schema of its case returned.
\<close>

lemma callTool_validates_with_parsed_schema:
  "(arguments request = Some raw \<and> toolSchema (tool_name request) = Some schema
      \<and> schema_parse srv schema raw = Inl issues
     \<longrightarrow> callTool srv request s
          = (Inl (Error (''Invalid arguments: '' @ join '', '' (map issueText issues))), s))
   \<and> (\<forall>c \<in> set (fst (snd (callTool srv request ([], w)))).
         \<exists>raw schema. arguments request = Some raw
           \<and> toolSchema (fst c) = Some schema
           \<and> schema_parse srv schema raw = Inr (snd c))"
  by (auto simp: callTool_def callTool_catch_def logged_def
      split: option.splits sum.splits prod.splits)

text \<open>
  For \<open>get_merge_request_details\<close> the arguments are never held against the declared
  schema: whatever it says of them, arguments that \<open>GetMergeRequestSchema\<close> accepts
  reach the handler.
\<close>

lemma get_merge_request_details_parses_other_schema:
  assumes "tool_name request = ''get_merge_request_details''"
    and "arguments request = Some raw"
    and "schema_parse srv ''GetMergeRequestSchema'' raw = Inr args"
    and "run srv (''get_merge_request_details'', args) w = (Inr v, wA)"
  shows "callTool srv request (lg, w)
         = (Inr (Content (JSON_stringify_pretty (server_platform srv) v)),
            (lg @ [(''get_merge_request_details'', args)], wA))"
proof -
  have "toolSchema (tool_name request) = Some ''GetMergeRequestSchema''"
    unfolding assms(1) by code_simp
  from callTool_valid[OF assms(2) this assms(3), of w "Inr v" wA lg] assms(1,4)
  show ?thesis
    by simp
qed

text \<open>
  C3: arguments that fail the parameter schema of the named tool must end in an
  invalid-arguments error, with no handler invoked. For \<open>get_merge_request_details\<close>
  the listing declares \<open>GitLabMergeRequestSchema\<close> and the dispatcher validates with
  \<open>GetMergeRequestSchema\<close>. Here the arguments are a project and a merge request
  number, which the declared schema refuses (a merge request has a title): the
  dispatcher raises no error, the handler runs and its result is returned.
\<close>

theorem callTool_get_merge_request_details_skips_declared_schema:
  "declaredSchema ''get_merge_request_details'' = Some ''GitLabMergeRequestSchema''
   \<and> toolSchema ''get_merge_request_details'' = Some ''GetMergeRequestSchema''
   \<and> schema_parse (stub_server Map.empty) ''GitLabMergeRequestSchema''
         [(''project_id'', JStr ''42''), (''merge_request_iid'', JNum 7)]
       = Inl [ZodIssue [Key ''title''] ''Required'']
   \<and> callTool (stub_server Map.empty)
         \<lparr>tool_name = ''get_merge_request_details'',
          arguments = Some [(''project_id'', JStr ''42''), (''merge_request_iid'', JNum 7)]\<rparr>
         ([], 0)
       = (Inr (Content ''get_merge_request_details''),
          ([(''get_merge_request_details'',
             [(''project_id'', JStr ''42''), (''merge_request_iid'', JNum 7)])], 1))"
proof -
  let ?srv = "stub_server Map.empty"
  let ?raw = "[(''project_id'', JStr ''42''), (''merge_request_iid'', JNum 7)]"
  let ?req = "\<lparr>tool_name = ''get_merge_request_details'', arguments = Some ?raw\<rparr>"
  have 1: "declaredSchema ''get_merge_request_details'' = Some ''GitLabMergeRequestSchema''"
    by code_simp
  have 2: "toolSchema ''get_merge_request_details'' = Some ''GetMergeRequestSchema''"
    by code_simp
  have 3: "schema_parse ?srv ''GitLabMergeRequestSchema'' ?raw
           = Inl [ZodIssue [Key ''title''] ''Required'']"
    by (simp add: stub_server_def stub_parse_def)
  have 4: "schema_parse ?srv ''GetMergeRequestSchema'' ?raw = Inr ?raw"
    by (simp add: stub_server_def stub_parse_def)
  have 5: "run ?srv (''get_merge_request_details'', ?raw) 0
           = (Inr (JStr ''get_merge_request_details''), 1)"
    by (simp add: stub_server_def)
  have 6: "JSON_stringify_pretty (server_platform ?srv) (JStr ''get_merge_request_details'')
           = ''get_merge_request_details''"
    by (simp add: stub_server_def stub_platform_def)
  have "callTool ?srv ?req ([], 0)
        = (Inr (Content (JSON_stringify_pretty (server_platform ?srv)
                          (JStr ''get_merge_request_details''))),
           ([] @ [(''get_merge_request_details'', ?raw)], 1))"
    by (rule get_merge_request_details_parses_other_schema[OF _ _ 4 5]) simp_all
  then have 7: "callTool ?srv ?req ([], 0)
        = (Inr (Content ''get_merge_request_details''),
           ([(''get_merge_request_details'', ?raw)], 1))"
    unfolding 6 by simp
  from 1 2 3 7 show ?thesis
    by blast
qed

section \<open>Reading a path that is a directory\<close>

text \<open>
  C5, as stated: every get-file-contents request for a directory produces a not-a-file
  error instead of the listing. The GitLab function does not: when the remote answers
  with an array that the schema accepts, \<open>getFileContents\<close> returns that listing as its
  value.
\<close>

theorem getFileContents_returns_directory_listing:
  "getFileContents stub_platform ''https://gitlab.com/api/v4'' remote_directory
     ''42'' ''src'' (Some ''main'') ([], ())
   = (Inr (DirectoryContent [JStr ''README.md'', JStr ''src'']),
      ([\<lparr>http_method = ''GET'',
         url = ''https://gitlab.com/api/v4/projects/42/repository/files/src'',
         searchParams = [(''ref'', ''main'')], body = []\<rparr>], ()))"
  by (simp add: getFileContents_def truthy_def strOf_def logged_def remote_directory_def
      stub_platform_def decodeContent_def startsWith_def)

text \<open>
  C5, amended: the GitHub tool \<open>github_get_file_content\<close> answers a path that is a
  directory with the error \<open>Path points to a directory, not a file\<close>, after its one
  call to the remote. The GitLab function \<open>getFileContents\<close> makes no such check: once
  the reference is known and the address of the file is a valid URL, a remote answer that
  parses as a directory listing is returned, unchanged, as the result.
\<close>

theorem directory_path_outcomes:
  "(getContent (owner, repo, path, ref) w = (Inr (GHDirectory entries), wC)
      \<longrightarrow> github_get_file_content pf getContent owner repo path ref (lg, w)
            = (FileError ''Path points to a directory, not a file'',
               (lg @ [(owner, repo, path, ref)], wC)))
   \<and> ((if \<not> truthy gitlabRef then getDefaultBranchRef pf api remote projectId s
        else (Inr (strOf gitlabRef), s)) = (Inr branch, (lgA, wA))
       \<and> URL_href pf (api @ ''/projects/'' @ encodeURIComponent pf projectId
                       @ ''/repository/files/'' @ encodeURIComponent pf filePath)
           = Inr address
       \<and> remote \<lparr>http_method = ''GET'', url = address,
                  searchParams = [(''ref'', branch)], body = []\<rparr> wA = (Resolved r, wB)
       \<and> GitLabContentSchema_parse pf (data r) = Inr (DirectoryContent listing)
      \<longrightarrow> getFileContents pf api remote projectId filePath gitlabRef s
            = (Inr (DirectoryContent listing),
               (lgA @ [\<lparr>http_method = ''GET'', url = address,
                         searchParams = [(''ref'', branch)], body = []\<rparr>], wB)))"
proof (intro conjI impI)
  assume "getContent (owner, repo, path, ref) w = (Inr (GHDirectory entries), wC)"
  then show "github_get_file_content pf getContent owner repo path ref (lg, w)
            = (FileError ''Path points to a directory, not a file'',
               (lg @ [(owner, repo, path, ref)], wC))"
    by (simp add: github_get_file_content_def logged_eq)
next
  let ?req = "\<lparr>http_method = ''GET'', url = address,
                searchParams = [(''ref'', branch)], body = []\<rparr>"
  assume a: "(if \<not> truthy gitlabRef then getDefaultBranchRef pf api remote projectId s
        else (Inr (strOf gitlabRef), s)) = (Inr branch, (lgA, wA))
       \<and> URL_href pf (api @ ''/projects/'' @ encodeURIComponent pf projectId
                       @ ''/repository/files/'' @ encodeURIComponent pf filePath)
           = Inr address
       \<and> remote ?req wA = (Resolved r, wB)
       \<and> GitLabContentSchema_parse pf (data r) = Inr (DirectoryContent listing)"
  then have "logged remote ?req (lgA, wA) = (Resolved r, (lgA @ [?req], wB))"
    by (simp add: logged_eq)
  with a show "getFileContents pf api remote projectId filePath gitlabRef s
            = (Inr (DirectoryContent listing), (lgA @ [?req], wB))"
    by (simp add: getFileContents_def decodeContent_def)
qed

theorem directory_path_outcomes_witness:
  "getContent_directory (''octo'', ''repo'', ''docs'', None) ()
     = (Inr (GHDirectory [JStr ''docs/a.md'']), ())
   \<and> github_get_file_content stub_platform getContent_directory ''octo'' ''repo'' ''docs'' None
       ([], ())
     = (FileError ''Path points to a directory, not a file'',
        ([(''octo'', ''repo'', ''docs'', None)], ()))
   \<and> URL_href stub_platform (''https://gitlab.com/api/v4'' @ ''/projects/''
          @ encodeURIComponent stub_platform ''42'' @ ''/repository/files/''
          @ encodeURIComponent stub_platform ''src'')
     = Inr ''https://gitlab.com/api/v4/projects/42/repository/files/src''
   \<and> GitLabContentSchema_parse stub_platform (JArr [JStr ''README.md'', JStr ''src''])
     = Inr (DirectoryContent [JStr ''README.md'', JStr ''src''])
   \<and> fst (getFileContents stub_platform ''https://gitlab.com/api/v4'' remote_directory
            ''42'' ''src'' (Some ''main'') ([], ()))
     = Inr (DirectoryContent [JStr ''README.md'', JStr ''src''])"
  using directory_path_outcomes
          [where getContent = getContent_directory and owner = "''octo''" and repo = "''repo''"
             and path = "''docs''" and ref = None and w = "()" and wC = "()"
             and entries = "[JStr ''docs/a.md'']" and lg = "[]" and pf = stub_platform
             and gitlabRef = "Some ''main''" and api = "''https://gitlab.com/api/v4''"
             and remote = remote_directory and projectId = "''42''" and s = "([], ())"
             and branch = "''main''" and lgA = "[]" and wA = "()" and wB = "()"
             and filePath = "''src''" and listing = "[JStr ''README.md'', JStr ''src'']"
             and address = "''https://gitlab.com/api/v4/projects/42/repository/files/src''"
             and r = "\<lparr>status = 200, statusText = ''OK'',
                        data = JArr [JStr ''README.md'', JStr ''src'']\<rparr>"]
  by (simp add: getContent_directory_def remote_directory_def stub_platform_def truthy_def
      strOf_def startsWith_def)

section \<open>createOrUpdateFile: create or update\<close>

lemma includesStr_startsWith: "startsWith s p \<Longrightarrow> includesStr s p"
  by (cases s) (auto simp: startsWith_def)

lemma includesStr_prefix: "includesStr (p @ rest) p"
  by (rule includesStr_startsWith) (simp add: startsWith_def)

text \<open>
  What holds on every input whose address is a valid URL. When the read of the file is
  answered with status 404, the file is created: one read, then one POST whose body
  carries only the markers the caller gave.
\<close>

lemma createOrUpdateFile_absent_creates:
  assumes "branch \<noteq> []"
    and "URL_href pf (api @ ''/projects/'' @ encodeURIComponent pf projectId
                      @ ''/repository/files/'' @ encodeURIComponent pf filePath)
         = Inr address"
    and "remote \<lparr>http_method = ''GET'', url = address,
                  searchParams = [(''ref'', branch)], body = []\<rparr> w
         = (Rejected (AxiosError m (Some r)), wA)"
    and "status r = 404"
  shows "createOrUpdateFile pf api remote projectId filePath fileText commitMessage branch
           previousPath given_last_commit_id given_commit_id (lg, w)
         = sendFile pf remote ''POST'' address
             ([(''branch'', branch), (''content'', fileText),
               (''commit_message'', commitMessage), (''encoding'', ''text'')]
              @ (if truthy previousPath then [(''previous_path'', strOf previousPath)] else [])
              @ markersGiven given_commit_id given_last_commit_id)
             (lg @ [\<lparr>http_method = ''GET'', url = address,
                      searchParams = [(''ref'', branch)], body = []\<rparr>], wA)"
proof -
  let ?req = "\<lparr>http_method = ''GET'', url = address,
                searchParams = [(''ref'', branch)], body = []\<rparr>"
  have read: "getFileContents pf api remote projectId filePath (Some branch) (lg, w)
              = (Inl (Error (''File not found: '' @ filePath)), (lg @ [?req], wA))"
    using assms
    by (simp add: getFileContents_def truthy_def strOf_def logged_eq getFileContents_catch_def)
  have found: "includesStr (exn_message pf (Error (''File not found: '' @ filePath)))
                 ''File not found''"
    by (simp add: exn_message_def startsWith_def)
  show ?thesis
    unfolding createOrUpdateFile_def Let_def read assms(2)
    using found by simp
qed

text \<open>
  When the read succeeds, the file is updated: one read, then one PUT whose body
  carries the markers of the file that was read, unless the caller gave its own.
\<close>

lemma createOrUpdateFile_existing_updates:
  assumes "branch \<noteq> []"
    and "URL_href pf (api @ ''/projects/'' @ encodeURIComponent pf projectId
                      @ ''/repository/files/'' @ encodeURIComponent pf filePath)
         = Inr address"
    and "remote \<lparr>http_method = ''GET'', url = address,
                  searchParams = [(''ref'', branch)], body = []\<rparr> w
         = (Resolved r, wA)"
    and "GitLabContentSchema_parse pf (data r) = Inr parsedData"
  shows "createOrUpdateFile pf api remote projectId filePath fileText commitMessage branch
           previousPath given_last_commit_id given_commit_id (lg, w)
         = sendFile pf remote ''PUT'' address
             ([(''branch'', branch), (''content'', fileText),
               (''commit_message'', commitMessage), (''encoding'', ''text'')]
              @ (if truthy previousPath then [(''previous_path'', strOf previousPath)] else [])
              @ markersAfterRead (decodeContent pf parsedData)
                  given_commit_id given_last_commit_id)
             (lg @ [\<lparr>http_method = ''GET'', url = address,
                      searchParams = [(''ref'', branch)], body = []\<rparr>], wA)"
proof -
  let ?req = "\<lparr>http_method = ''GET'', url = address,
                searchParams = [(''ref'', branch)], body = []\<rparr>"
  have read: "getFileContents pf api remote projectId filePath (Some branch) (lg, w)
              = (Inr (decodeContent pf parsedData), (lg @ [?req], wA))"
    using assms
    by (simp add: getFileContents_def truthy_def strOf_def logged_eq)
  show ?thesis
    unfolding createOrUpdateFile_def Let_def read assms(2)
    by simp
qed

text \<open>
  An address that is not a valid URL ends the call before any request is made.
\<close>

lemma createOrUpdateFile_invalid_address:
  assumes "URL_href pf (api @ ''/projects/'' @ encodeURIComponent pf projectId
                        @ ''/repository/files/'' @ encodeURIComponent pf filePath)
           = Inl invalid"
  shows "createOrUpdateFile pf api remote projectId filePath fileText commitMessage branch
           previousPath given_last_commit_id given_commit_id s
         = (Inl invalid, s)"
  using assms by (simp add: createOrUpdateFile_def)

text \<open>
  A failed read whose message does not contain \<open>File not found\<close> is rethrown, and
  nothing is written.
\<close>

lemma createOrUpdateFile_read_failure_propagates:
  assumes "URL_href pf (api @ ''/projects/'' @ encodeURIComponent pf projectId
                        @ ''/repository/files/'' @ encodeURIComponent pf filePath)
           = Inr address"
    and "getFileContents pf api remote projectId filePath (Some branch) s = (Inl failure, sA)"
    and "\<not> includesStr (exn_message pf failure) ''File not found''"
  shows "createOrUpdateFile pf api remote projectId filePath fileText commitMessage branch
           previousPath given_last_commit_id given_commit_id s
         = (Inl failure, sA)"
  using assms by (simp add: createOrUpdateFile_def Let_def)

text \<open>
  C4: a read failure other than not-found must propagate instead of being taken for an
  absent file. The code decides by looking for the text \<open>File not found\<close> in the
  message of the error, and the message of a remote error contains the body the remote
  sent. Here the read is answered with status 500 and the body \<open>File not found\<close>:
  \<open>getFileContents\<close> throws the generic remote error, and \<open>createOrUpdateFile\<close> goes
  on to create the file with a POST and returns its result.
\<close>

theorem createOrUpdateFile_creates_after_status_500:
  "getFileContents stub_platform ''https://gitlab.com/api/v4'' remote_read_fails_500
     ''42'' ''README.md'' (Some ''main'') ([], ())
   = (Inl (Error (''GitLab API error: 500 Internal Server Error'' @ [CHR 0x0A]
                  @ ''File not found'')),
      ([\<lparr>http_method = ''GET'',
         url = ''https://gitlab.com/api/v4/projects/42/repository/files/README.md'',
         searchParams = [(''ref'', ''main'')], body = []\<rparr>], ()))
   \<and> createOrUpdateFile stub_platform ''https://gitlab.com/api/v4'' remote_read_fails_500
       ''42'' ''README.md'' ''hello'' ''update readme'' ''main'' None None None ([], ())
     = (Inr JNull,
        ([\<lparr>http_method = ''GET'',
           url = ''https://gitlab.com/api/v4/projects/42/repository/files/README.md'',
           searchParams = [(''ref'', ''main'')], body = []\<rparr>,
          \<lparr>http_method = ''POST'',
           url = ''https://gitlab.com/api/v4/projects/42/repository/files/README.md'',
           searchParams = [], body = [(''branch'', ''main''), (''content'', ''hello''),
             (''commit_message'', ''update readme''), (''encoding'', ''text'')]\<rparr>], ()))"
  by code_simp

section \<open>Properties of the script tool\<close>

lemma trim_empty_iff: "trim s = [] \<longleftrightarrow> (\<forall>c \<in> set s. isSpace c)"
proof
  assume "trim s = []"
  then have "\<forall>c \<in> set (dropWhile isSpace s). isSpace c"
    by (simp add: trim_def)
  then have "dropWhile isSpace s = []"
    by (metis hd_dropWhile hd_in_set)
  then show "\<forall>c \<in> set s. isSpace c"
    by simp
next
  assume "\<forall>c \<in> set s. isSpace c"
  then have d: "dropWhile isSpace s = []"
    by simp
  show "trim s = []"
    unfolding trim_def d by simp
qed

lemma canonicalize_letter_upper:
  "isLetter c \<Longrightarrow> (65 :: nat) \<le> of_char (canonicalize c) \<and> of_char (canonicalize c) \<le> (90 :: nat)"
  by (auto simp: isLetter_def canonicalize_def of_char_of)

lemma canonicalize_upper_not_space:
  "(65 :: nat) \<le> of_char (canonicalize x) \<Longrightarrow> of_char (canonicalize x) \<le> (90 :: nat) \<Longrightarrow> \<not> isSpace x"
  by (auto simp: canonicalize_def isSpace_def split: if_splits)

lemma canonicalize_letter_not_space:
  assumes "canonicalize x = canonicalize c" and "isLetter c"
  shows "\<not> isSpace x"
  using canonicalize_letter_upper[OF assms(2)] canonicalize_upper_not_space[of x] assms(1)
  by simp

lemma matchChars_head:
  "matchChars (c # cs) (p, s) \<noteq> [] \<Longrightarrow> s \<noteq> [] \<and> canonicalize (hd s) = canonicalize c"
  by (cases s) (auto split: if_splits)

lemma matchesAt_Boundary_Seq:
  "matchesAt (Seq Boundary r) pos \<noteq> [] \<Longrightarrow> matchesAt r pos \<noteq> []"
  by (auto split: if_splits)

lemma matchesAt_Chars_Seq:
  "matchesAt (Seq (Chars cs) r) pos \<noteq> [] \<Longrightarrow> matchChars cs pos \<noteq> []"
  by auto

lemma searchFrom_finds:
  assumes "\<And>p s. matchesAt r (p, s) \<noteq> [] \<Longrightarrow> s \<noteq> [] \<and> Q (hd s)"
  shows "searchFrom r p s \<Longrightarrow> \<exists>x \<in> set s. Q x"
proof (induction s arbitrary: p)
  case Nil
  then show ?case using assms[of p "[]"] by simp
next
  case (Cons x xs)
  then show ?case using assms[of p "x # xs"] by auto
qed

lemma starts_with_letter:
  assumes "isLetter c"
    and "\<And>pos. matchesAt r pos \<noteq> [] \<Longrightarrow> matchChars (c # cs) pos \<noteq> []"
    and "test (Seq Boundary r) s"
  shows "\<exists>x \<in> set s. \<not> isSpace x"
proof -
  have "\<exists>x \<in> set s. canonicalize x = canonicalize c"
  proof (rule searchFrom_finds[of "Seq Boundary r" _ None s])
    fix p t
    assume "matchesAt (Seq Boundary r) (p, t) \<noteq> []"
    then have "matchChars (c # cs) (p, t) \<noteq> []"
      using assms(2) matchesAt_Boundary_Seq by blast
    then show "t \<noteq> [] \<and> canonicalize (hd t) = canonicalize c"
      by (rule matchChars_head)
  next
    show "searchFrom (Seq Boundary r) None s"
      using assms(3) by (simp add: test_def)
  qed
  then show ?thesis
    using canonicalize_letter_not_space assms(1) by blast
qed

lemma dangerous_not_blank:
  assumes "dangerous script"
  shows "\<exists>x \<in> set script. \<not> isSpace x"
proof -
  have l: "isLetter CHR ''r''" "isLetter CHR ''f''" "isLetter CHR ''m''" "isLetter CHR ''d''"
    "isLetter CHR ''w''"
    by (simp_all add: isLetter_def)
  from assms consider
      (rm) "test (dangerousCommands ! 0) script"
    | (format) "test (dangerousCommands ! 1) script"
    | (mkfs) "test (dangerousCommands ! 2) script"
    | (dd) "test (dangerousCommands ! 3) script"
    | (wipe) "test (dangerousCommands ! 4) script"
    by (auto simp: dangerous_def dangerousCommands_def)
  then show ?thesis
  proof cases
    case rm
    then show ?thesis
      by (intro starts_with_letter[OF l(1), where cs = "''m''"])
         (auto simp: dangerousCommands_def simp del: matchChars.simps)
  next
    case format
    then show ?thesis
      by (intro starts_with_letter[OF l(2), where cs = "''ormat''"])
         (auto simp: dangerousCommands_def simp del: matchChars.simps)
  next
    case mkfs
    then show ?thesis
      by (intro starts_with_letter[OF l(3), where cs = "''kfs''"])
         (auto simp: dangerousCommands_def simp del: matchChars.simps)
  next
    case dd
    then show ?thesis
      by (intro starts_with_letter[OF l(4), where cs = "''d''"])
         (auto simp: dangerousCommands_def simp del: matchChars.simps)
  next
    case wipe
    then show ?thesis
      by (intro starts_with_letter[OF l(5), where cs = "''ipe''"])
         (auto simp: dangerousCommands_def simp del: matchChars.simps)
  qed
qed

lemma dangerous_not_empty: "dangerous script \<Longrightarrow> \<not> scriptEmpty script"
  using dangerous_not_blank[of script] by (auto simp: scriptEmpty_def trim_empty_iff)

text \<open>
  C6, as stated: every script that matches a deny-list pattern is answered with the
  dangerous-script error. The timeout is validated before the deny-list is consulted, so
  with a timeout outside the accepted range the answer is the invalid-timeout error.
\<close>

theorem dangerous_script_with_invalid_timeout:
  "dangerous ''rm -rf /''
   \<and> execute_comand_line_script stub_platform stub_exec ''rm -rf /'' (Some 0) ([], ())
       = (invalidTimeoutError, ([], ()))
   \<and> invalidTimeoutError \<noteq> dangerousScriptError"
  by code_simp

text \<open>
  C6, amended: for every script that matches a deny-list pattern the handler returns
  without calling \<open>exec\<close> (the log of spawned processes and the state of the system
  are unchanged): with the dangerous-script error when the timeout, 30 by default, lies in
  the accepted range, and with the invalid-timeout error when it does not.
\<close>

theorem dangerous_script_never_spawns:
  "dangerous script \<Longrightarrow>
     execute_comand_line_script pf exec script timeoutArg s
       = (if timeoutInvalid (case timeoutArg of None \<Rightarrow> 30 | Some t \<Rightarrow> t)
          then invalidTimeoutError else dangerousScriptError, s)"
  by (simp add: execute_comand_line_script_def dangerous_not_empty Let_def)

lemma sudo_rm_dangerous: "dangerous ''sudo RM  -r ~/''"
  by code_simp

theorem dangerous_script_never_spawns_witness:
  "dangerous ''sudo RM  -r ~/''
   \<and> execute_comand_line_script stub_platform stub_exec ''sudo RM  -r ~/'' None ([], ())
       = (dangerousScriptError, ([], ()))"
  using dangerous_script_never_spawns
          [OF sudo_rm_dangerous, of stub_platform stub_exec None "([], ())"]
        sudo_rm_dangerous
  by (simp add: timeoutInvalid_def)

text \<open>
  C7, as stated: a non-zero exit status is reported as data and not as an error. The
  handler reports it from its catch block: the result has the \<open>error\<close> field set, as
  the results of its guards have.
\<close>

theorem nonzero_exit_sets_error:
  "execute_comand_line_script stub_platform stub_exec ''exit 3'' None ([], ())
     = (\<lparr>res_error = Some ''Command failed: exit 3'', res_stdout = Some [],
         res_stderr = Some [], res_exitCode = Some (CodeNumber 3)\<rparr>,
        ([(''exit 3'', \<lparr>opt_timeout = 30000, opt_maxBuffer = 1048576\<rparr>)], ()))
   \<and> res_error (fst (execute_comand_line_script stub_platform stub_exec ''exit 3'' None
                        ([], ()))) \<noteq> None"
proof -
  have "\<not> scriptEmpty ''exit 3''" and "\<not> dangerous ''exit 3''"
    by code_simp+
  then show ?thesis
    by (simp add: execute_comand_line_script_def Let_def timeoutInvalid_def logged_def
        stub_exec_def execFailed_def codeOrMinusOne_def truthy_def strOf_def
        stub_platform_def)
qed

text \<open>
  C7, amended: for a script that passes the guards, \<open>exec\<close> is called once, with
  the product of the timeout and 1000, as the runtime computes it, as timeout in
  milliseconds and a buffer of 1 MiB. When the process exits with status 0
  the result is the captured output and exit code 0, with no \<open>error\<close> field. When it
  exits with a non-zero status the handler does not throw: the result carries the captured
  output and that status as exit code, together with an \<open>error\<close> field holding the
  message of the failure.
\<close>

theorem script_completion:
  "\<not> scriptEmpty script \<Longrightarrow>
   \<not> dangerous script \<Longrightarrow>
   timeoutSeconds = (case timeoutArg of None \<Rightarrow> 30 | Some t \<Rightarrow> t) \<Longrightarrow>
   \<not> timeoutInvalid timeoutSeconds \<Longrightarrow>
   opts = \<lparr>opt_timeout = multiply pf timeoutSeconds 1000,
           opt_maxBuffer = 1024 * 1024\<rparr> \<Longrightarrow>
     (exec (script, opts) w = (ExecResolved out err, wA)
        \<longrightarrow> execute_comand_line_script pf exec script timeoutArg (lg, w)
              = (\<lparr>res_error = None, res_stdout = Some out, res_stderr = Some err,
                  res_exitCode = Some (CodeNumber 0)\<rparr>,
                 (lg @ [(script, opts)], wA)))
   \<and> (exec (script, opts) w = (ExecRejected e, wA)
          \<and> err_code e = CodeNumber n \<and> n \<noteq> 0 \<and> err_signal e \<noteq> Some ''SIGTERM''
        \<longrightarrow> execute_comand_line_script pf exec script timeoutArg (lg, w)
              = (\<lparr>res_error = Some (if truthy (err_message e) then strOf (err_message e)
                                     else ''Unknown execution error''),
                  res_stdout = Some (strOf (err_stdout e)),
                  res_stderr = Some (strOf (err_stderr e)),
                  res_exitCode = Some (CodeNumber n)\<rparr>,
                 (lg @ [(script, opts)], wA)))"
  by (simp add: execute_comand_line_script_def Let_def logged_eq execFailed_def
      codeOrMinusOne_def)

lemma guards_pass:
  "\<not> scriptEmpty ''ls''" "\<not> dangerous ''ls''"
  "\<not> scriptEmpty ''exit 3''" "\<not> dangerous ''exit 3''"
  by code_simp+

theorem script_completion_witness:
  "execute_comand_line_script stub_platform stub_exec ''ls'' None ([], ())
     = (\<lparr>res_error = None, res_stdout = Some ''ok'', res_stderr = Some [],
         res_exitCode = Some (CodeNumber 0)\<rparr>,
        ([(''ls'', \<lparr>opt_timeout = 30000, opt_maxBuffer = 1048576\<rparr>)], ()))
   \<and> execute_comand_line_script stub_platform stub_exec ''exit 3'' None ([], ())
     = (\<lparr>res_error = Some ''Command failed: exit 3'', res_stdout = Some [],
         res_stderr = Some [], res_exitCode = Some (CodeNumber 3)\<rparr>,
        ([(''exit 3'', \<lparr>opt_timeout = 30000, opt_maxBuffer = 1048576\<rparr>)], ()))"
proof -
  let ?opts = "\<lparr>opt_timeout = multiply stub_platform 30 1000, opt_maxBuffer = 1024 * 1024\<rparr>"
  have valid: "\<not> timeoutInvalid 30"
    by (simp add: timeoutInvalid_def)
  have opts: "?opts = \<lparr>opt_timeout = 30000, opt_maxBuffer = 1048576\<rparr>"
    by (simp add: stub_platform_def)
  have ok: "stub_exec (''ls'', ?opts) () = (ExecResolved ''ok'' [], ())"
    by (simp add: stub_exec_def)
  have failed: "stub_exec (''exit 3'', ?opts) ()
            = (ExecRejected \<lparr>err_message = Some ''Command failed: exit 3'',
                 err_code = CodeNumber 3, err_signal = None, err_stdout = Some [],
                 err_stderr = Some []\<rparr>, ())"
    by (simp add: stub_exec_def)
  from script_completion
         [OF guards_pass(1) guards_pass(2) _ valid refl,
          where timeoutArg = None and exec = stub_exec and w = "()" and wA = "()"
            and out = "''ok''" and err = "[]" and pf = stub_platform and lg = "[]"] ok
  have "execute_comand_line_script stub_platform stub_exec ''ls'' None ([], ())
     = (\<lparr>res_error = None, res_stdout = Some ''ok'', res_stderr = Some [],
         res_exitCode = Some (CodeNumber 0)\<rparr>,
        ([(''ls'', ?opts)], ()))"
    by simp
  then have a: "execute_comand_line_script stub_platform stub_exec ''ls'' None ([], ())
     = (\<lparr>res_error = None, res_stdout = Some ''ok'', res_stderr = Some [],
         res_exitCode = Some (CodeNumber 0)\<rparr>,
        ([(''ls'', \<lparr>opt_timeout = 30000, opt_maxBuffer = 1048576\<rparr>)], ()))"
    unfolding opts .
  from script_completion
         [OF guards_pass(3) guards_pass(4) _ valid refl,
          where timeoutArg = None and exec = stub_exec and w = "()" and wA = "()"
            and e = "\<lparr>err_message = Some ''Command failed: exit 3'',
                 err_code = CodeNumber 3, err_signal = None, err_stdout = Some [],
                 err_stderr = Some []\<rparr>" and n = 3 and pf = stub_platform and lg = "[]"] failed
  have "execute_comand_line_script stub_platform stub_exec ''exit 3'' None ([], ())
     = (\<lparr>res_error = Some ''Command failed: exit 3'', res_stdout = Some [],
         res_stderr = Some [], res_exitCode = Some (CodeNumber 3)\<rparr>,
        ([(''exit 3'', ?opts)], ()))"
    by (simp add: truthy_def strOf_def)
  then have b: "execute_comand_line_script stub_platform stub_exec ''exit 3'' None ([], ())
     = (\<lparr>res_error = Some ''Command failed: exit 3'', res_stdout = Some [],
         res_stderr = Some [], res_exitCode = Some (CodeNumber 3)\<rparr>,
        ([(''exit 3'', \<lparr>opt_timeout = 30000, opt_maxBuffer = 1048576\<rparr>)], ()))"
    unfolding opts .
  from a b show ?thesis
    by blast
qed

section \<open>Properties of handleGitLabError\<close>

declare showNat.simps [simp del]



lemma handleGitLabError_success: "200 \<le> status r \<Longrightarrow> status r < 300 \<Longrightarrow> handleGitLabError pf r = None"
  by (simp add: handleGitLabError_def)

section \<open>github_pr_action: closing with a comment\<close>

text \<open>
  C9, as stated: when the state change succeeds and the comment fails, the caller can
  tell from the result that the state change took effect. It cannot: the handler has one
  catch block for both calls. With the first stub the pull request is closed and the comment
  fails; with the second the closing itself fails. The results are equal.
\<close>

theorem github_pr_action_partial_success_not_reported:
  "octokit_comment_fails (PullsUpdate ''octo'' ''repo'' 7 ''closed'') ()
     = (Inr (JObj [(''state'', JStr ''closed'')]), ())
   \<and> fst (snd (github_pr_action stub_platform octokit_comment_fails
                  ''octo'' ''repo'' 7 ''close'' (Some ''bye'') ([], ())))
     = [PullsUpdate ''octo'' ''repo'' 7 ''closed'',
        IssuesCreateComment ''octo'' ''repo'' 7 ''bye'']
   \<and> fst (github_pr_action stub_platform octokit_comment_fails
             ''octo'' ''repo'' 7 ''close'' (Some ''bye'') ([], ()))
     = ActionError ''Failed to perform action: Server Error''
   \<and> fst (github_pr_action stub_platform octokit_update_fails
             ''octo'' ''repo'' 7 ''close'' (Some ''bye'') ([], ()))
     = ActionError ''Failed to perform action: Server Error''"
  by (simp add: github_pr_action_def logged_def octokit_comment_fails_def
      octokit_update_fails_def truthy_def strOf_def actionFailed_def exn_message_def)

text \<open>
  C9, amended: when closing the pull request succeeds and posting the comment fails,
  both calls have been made, in this order, and the handler returns the generic error
  \<open>Failed to perform action: \<close> followed by the message of the comment's failure. The
  answer of the state change is not part of the result: it is the result of a call in
  which the state change itself fails with that message. With action \<open>approve\<close> the
  handler makes a single call, the review, which carries the comment.
\<close>

theorem github_pr_action_outcomes:
  "(octokit (PullsUpdate owner repo prNumber ''closed'') w = (Inr pull, wA)
      \<and> truthy comment
      \<and> octokit (IssuesCreateComment owner repo prNumber (strOf comment)) wA = (Inl failure, wB)
     \<longrightarrow> github_pr_action pf octokit owner repo prNumber ''close'' comment (lg, w)
          = (ActionError (''Failed to perform action: '' @ exn_message pf failure),
             (lg @ [PullsUpdate owner repo prNumber ''closed'',
                    IssuesCreateComment owner repo prNumber (strOf comment)], wB)))
   \<and> (octokitB (PullsUpdate owner repo prNumber ''closed'') w = (Inl failureB, wD)
     \<longrightarrow> github_pr_action pf octokitB owner repo prNumber ''close'' comment (lg, w)
          = (ActionError (''Failed to perform action: '' @ exn_message pf failureB),
             (lg @ [PullsUpdate owner repo prNumber ''closed''], wD)))
   \<and> (octokit (PullsUpdate owner repo prNumber ''closed'') w = (Inr pull, wA)
      \<and> truthy comment
      \<and> octokit (IssuesCreateComment owner repo prNumber (strOf comment)) wA = (Inl failure, wB)
      \<and> octokitB (PullsUpdate owner repo prNumber ''closed'') w = (Inl failureB, wD)
      \<and> exn_message pf failureB = exn_message pf failure
     \<longrightarrow> fst (github_pr_action pf octokit owner repo prNumber ''close'' comment (lg, w))
          = fst (github_pr_action pf octokitB owner repo prNumber ''close'' comment (lg, w)))
   \<and> (octokitC (PullsCreateReview owner repo prNumber ''APPROVE'' comment) w = (answer, wE)
     \<longrightarrow> github_pr_action pf octokitC owner repo prNumber ''approve'' comment (lg, w)
          = (case answer of
               Inr review \<Rightarrow> ReviewResult review
             | Inl refusal \<Rightarrow>
                 ActionError (''Failed to perform action: '' @ exn_message pf refusal),
             (lg @ [PullsCreateReview owner repo prNumber ''APPROVE'' comment], wE)))"
proof -
  have partial: "github_pr_action pf octokit owner repo prNumber ''close'' comment (lg, w)
          = (ActionError (''Failed to perform action: '' @ exn_message pf failure),
             (lg @ [PullsUpdate owner repo prNumber ''closed'',
                    IssuesCreateComment owner repo prNumber (strOf comment)], wB))"
    if "octokit (PullsUpdate owner repo prNumber ''closed'') w = (Inr pull, wA)"
      and "truthy comment"
      and "octokit (IssuesCreateComment owner repo prNumber (strOf comment)) wA
           = (Inl failure, wB)"
    using that by (simp add: github_pr_action_def logged_eq actionFailed_def)
  have total: "github_pr_action pf octokitB owner repo prNumber ''close'' comment (lg, w)
          = (ActionError (''Failed to perform action: '' @ exn_message pf failureB),
             (lg @ [PullsUpdate owner repo prNumber ''closed''], wD))"
    if "octokitB (PullsUpdate owner repo prNumber ''closed'') w = (Inl failureB, wD)"
    using that by (simp add: github_pr_action_def logged_eq actionFailed_def)
  have approve: "github_pr_action pf octokitC owner repo prNumber ''approve'' comment (lg, w)
          = (case answer of
               Inr review \<Rightarrow> ReviewResult review
             | Inl refusal \<Rightarrow>
                 ActionError (''Failed to perform action: '' @ exn_message pf refusal),
             (lg @ [PullsCreateReview owner repo prNumber ''APPROVE'' comment], wE))"
    if "octokitC (PullsCreateReview owner repo prNumber ''APPROVE'' comment) w = (answer, wE)"
    using that
    by (simp add: github_pr_action_def logged_eq actionFailed_def split: sum.split)
  show ?thesis
  proof (intro conjI impI)
    assume "octokit (PullsUpdate owner repo prNumber ''closed'') w = (Inr pull, wA)
      \<and> truthy comment
      \<and> octokit (IssuesCreateComment owner repo prNumber (strOf comment)) wA
          = (Inl failure, wB)"
    then show "github_pr_action pf octokit owner repo prNumber ''close'' comment (lg, w)
          = (ActionError (''Failed to perform action: '' @ exn_message pf failure),
             (lg @ [PullsUpdate owner repo prNumber ''closed'',
                    IssuesCreateComment owner repo prNumber (strOf comment)], wB))"
      using partial by blast
  next
    assume "octokitB (PullsUpdate owner repo prNumber ''closed'') w = (Inl failureB, wD)"
    then show "github_pr_action pf octokitB owner repo prNumber ''close'' comment (lg, w)
          = (ActionError (''Failed to perform action: '' @ exn_message pf failureB),
             (lg @ [PullsUpdate owner repo prNumber ''closed''], wD))"
      by (rule total)
  next
    assume a: "octokit (PullsUpdate owner repo prNumber ''closed'') w = (Inr pull, wA)
      \<and> truthy comment
      \<and> octokit (IssuesCreateComment owner repo prNumber (strOf comment)) wA
          = (Inl failure, wB)
      \<and> octokitB (PullsUpdate owner repo prNumber ''closed'') w = (Inl failureB, wD)
      \<and> exn_message pf failureB = exn_message pf failure"
    then have "github_pr_action pf octokit owner repo prNumber ''close'' comment (lg, w)
          = (ActionError (''Failed to perform action: '' @ exn_message pf failure),
             (lg @ [PullsUpdate owner repo prNumber ''closed'',
                    IssuesCreateComment owner repo prNumber (strOf comment)], wB))"
      using partial by blast
    moreover from a
    have "github_pr_action pf octokitB owner repo prNumber ''close'' comment (lg, w)
          = (ActionError (''Failed to perform action: '' @ exn_message pf failureB),
             (lg @ [PullsUpdate owner repo prNumber ''closed''], wD))"
      using total by blast
    ultimately
    show "fst (github_pr_action pf octokit owner repo prNumber ''close'' comment (lg, w))
          = fst (github_pr_action pf octokitB owner repo prNumber ''close'' comment (lg, w))"
      using a by simp
  next
    assume "octokitC (PullsCreateReview owner repo prNumber ''APPROVE'' comment) w = (answer, wE)"
    then show "github_pr_action pf octokitC owner repo prNumber ''approve'' comment (lg, w)
          = (case answer of
               Inr review \<Rightarrow> ReviewResult review
             | Inl refusal \<Rightarrow>
                 ActionError (''Failed to perform action: '' @ exn_message pf refusal),
             (lg @ [PullsCreateReview owner repo prNumber ''APPROVE'' comment], wE))"
      by (rule approve)
  qed
qed

theorem github_pr_action_outcomes_witness:
  "octokit_comment_fails (PullsUpdate ''octo'' ''repo'' 7 ''closed'') ()
     = (Inr (JObj [(''state'', JStr ''closed'')]), ())
   \<and> truthy (Some ''bye'')
   \<and> octokit_comment_fails (IssuesCreateComment ''octo'' ''repo'' 7 (strOf (Some ''bye''))) ()
     = (Inl (Error ''Server Error''), ())
   \<and> octokit_update_fails (PullsUpdate ''octo'' ''repo'' 7 ''closed'') ()
     = (Inl (Error ''Server Error''), ())
   \<and> octokit_accepts (PullsCreateReview ''octo'' ''repo'' 7 ''APPROVE'' (Some ''bye'')) ()
     = (Inr (JObj []), ())
   \<and> github_pr_action stub_platform octokit_comment_fails ''octo'' ''repo'' 7 ''close''
       (Some ''bye'') ([], ())
     = (ActionError ''Failed to perform action: Server Error'',
        ([PullsUpdate ''octo'' ''repo'' 7 ''closed'',
          IssuesCreateComment ''octo'' ''repo'' 7 ''bye''], ()))
   \<and> github_pr_action stub_platform octokit_update_fails ''octo'' ''repo'' 7 ''close''
       (Some ''bye'') ([], ())
     = (ActionError ''Failed to perform action: Server Error'',
        ([PullsUpdate ''octo'' ''repo'' 7 ''closed''], ()))
   \<and> fst (github_pr_action stub_platform octokit_comment_fails ''octo'' ''repo'' 7 ''close''
            (Some ''bye'') ([], ()))
     = fst (github_pr_action stub_platform octokit_update_fails ''octo'' ''repo'' 7 ''close''
              (Some ''bye'') ([], ()))
   \<and> github_pr_action stub_platform octokit_accepts ''octo'' ''repo'' 7 ''approve''
       (Some ''bye'') ([], ())
     = (ReviewResult (JObj []),
        ([PullsCreateReview ''octo'' ''repo'' 7 ''APPROVE'' (Some ''bye'')], ()))"
proof -
  have 1: "octokit_comment_fails (PullsUpdate ''octo'' ''repo'' 7 ''closed'') ()
           = (Inr (JObj [(''state'', JStr ''closed'')]), ())"
    by (simp add: octokit_comment_fails_def)
  have 2: "truthy (Some ''bye'')"
    by (simp add: truthy_def)
  have 3: "octokit_comment_fails
             (IssuesCreateComment ''octo'' ''repo'' 7 (strOf (Some ''bye''))) ()
           = (Inl (Error ''Server Error''), ())"
    by (simp add: octokit_comment_fails_def)
  have 4: "octokit_update_fails (PullsUpdate ''octo'' ''repo'' 7 ''closed'') ()
           = (Inl (Error ''Server Error''), ())"
    by (simp add: octokit_update_fails_def)
  have 5: "octokit_accepts (PullsCreateReview ''octo'' ''repo'' 7 ''APPROVE'' (Some ''bye'')) ()
           = (Inr (JObj []), ())"
    by (simp add: octokit_accepts_def)
  have 6: "exn_message stub_platform (Error ''Server Error'') = ''Server Error''"
    by (simp add: exn_message_def)
  have 7: "strOf (Some ''bye'') = ''bye''"
    by (simp add: strOf_def)
  note t = github_pr_action_outcomes
         [where octokit = octokit_comment_fails and octokitB = octokit_update_fails
            and octokitC = octokit_accepts and owner = "''octo''" and repo = "''repo''"
            and prNumber = 7 and w = "()" and wA = "()" and wB = "()" and wD = "()"
            and wE = "()" and pull = "JObj [(''state'', JStr ''closed'')]"
            and comment = "Some ''bye''" and failure = "Error ''Server Error''"
            and failureB = "Error ''Server Error''" and answer = "Inr (JObj [])"
            and pf = stub_platform and lg = "[]"]
  from t 1 2 3
  have a: "github_pr_action stub_platform octokit_comment_fails ''octo'' ''repo'' 7 ''close''
             (Some ''bye'') ([], ())
           = (ActionError ''Failed to perform action: Server Error'',
              ([PullsUpdate ''octo'' ''repo'' 7 ''closed'',
                IssuesCreateComment ''octo'' ''repo'' 7 ''bye''], ()))"
    by (simp add: 6 7)
  from t 4
  have b: "github_pr_action stub_platform octokit_update_fails ''octo'' ''repo'' 7 ''close''
             (Some ''bye'') ([], ())
           = (ActionError ''Failed to perform action: Server Error'',
              ([PullsUpdate ''octo'' ''repo'' 7 ''closed''], ()))"
    by (simp add: 6)
  from t 1 2 3 4
  have c: "fst (github_pr_action stub_platform octokit_comment_fails ''octo'' ''repo'' 7
                  ''close'' (Some ''bye'') ([], ()))
           = fst (github_pr_action stub_platform octokit_update_fails ''octo'' ''repo'' 7
                    ''close'' (Some ''bye'') ([], ()))"
    by blast
  from t 5
  have d: "github_pr_action stub_platform octokit_accepts ''octo'' ''repo'' 7 ''approve''
             (Some ''bye'') ([], ())
           = (ReviewResult (JObj []),
              ([PullsCreateReview ''octo'' ''repo'' 7 ''APPROVE'' (Some ''bye'')], ()))"
    by simp
  from 1 2 3 4 5 a b c d show ?thesis
    by blast
qed

section \<open>Properties of normalizeGitLabApiUrl\<close>

lemma endsWith_iff: "endsWith s suf \<longleftrightarrow> (\<exists>p. s = p @ suf)"
  unfolding endsWith_def
  by (metis append_eq_conv_conj append_take_drop_id diff_add_inverse2 length_append
      le_add2 length_drop)

lemma endsWith_append: "endsWith (p @ suf) suf"
  by (auto simp: endsWith_iff)

lemma endsWith_slash_last: "endsWith s ''/'' \<longleftrightarrow> (s \<noteq> [] \<and> last s = CHR ''/'')"
  by (metis append_butlast_last_id endsWith_iff last_snoc snoc_eq_iff_butlast)

text \<open>A string that ends with \<open>/api/v4\<close> is returned unchanged.\<close>

lemma normalize_fixed_point:
  assumes "endsWith n ''/api/v4''"
  shows "normalizeGitLabApiUrl (Some n) = n" and "\<not> endsWith n ''/''"
proof -
  from assms obtain p where n: "n = p @ ''/api/v4''"
    by (auto simp: endsWith_iff)
  show "\<not> endsWith n ''/''"
    by (simp add: n endsWith_slash_last)
  moreover have "n \<noteq> []"
    by (simp add: n)
  ultimately show "normalizeGitLabApiUrl (Some n) = n"
    using assms by (simp add: normalizeGitLabApiUrl_def Let_def)
qed

lemma normalize_ends_with_api_v4:
  assumes "\<not> endsWithApiV4DoubleSlash input"
  shows "endsWith (normalizeGitLabApiUrl input) ''/api/v4''"
proof (cases input)
  case None
  then show ?thesis
    by (simp add: normalizeGitLabApiUrl_def endsWith_def)
next
  case (Some u)
  show ?thesis
  proof (cases "u = []")
    case True
    then show ?thesis
      using Some by (simp add: normalizeGitLabApiUrl_def endsWith_def)
  next
    case False
    define n where "n = (if endsWith u ''/'' then butlast u else u)"
    have no_slash: "\<not> endsWith n ''/api/v4/''"
    proof
      assume "endsWith n ''/api/v4/''"
      then obtain p where p: "n = p @ ''/api/v4/''"
        by (auto simp: endsWith_iff)
      show False
      proof (cases "endsWith u ''/''")
        case True
        then have "u = n @ ''/''"
          using False by (simp add: n_def endsWith_slash_last) (metis append_butlast_last_id)
        then have "u = p @ ''/api/v4//''"
          using p by simp
        then have "endsWith u ''/api/v4//''"
          by (metis endsWith_iff)
        then show False
          using assms Some by (simp add: endsWithApiV4DoubleSlash_def)
      next
        case False
        then have "n = u"
          by (simp add: n_def)
        then have "u = p @ ''/api/v4/''"
          using p by simp
        then have "endsWith u ''/''"
          by (simp add: endsWith_slash_last)
        then show False
          using False by simp
      qed
    qed
    show ?thesis
      using Some False no_slash
      by (simp add: normalizeGitLabApiUrl_def Let_def n_def[symmetric] endsWith_append)
  qed
qed

text \<open>
  An input that ends with \<open>/api/v4//\<close> loses one slash and keeps the other; a
  second call removes that one too.
\<close>

lemma butlast_snoc_string: "butlast (p @ q @ ''/'') = p @ q"
  by (simp add: butlast_append)

lemma normalize_double_slash:
  assumes "endsWith u ''/api/v4//''"
  shows "normalizeGitLabApiUrl (Some u) = butlast u"
    and "endsWith (butlast u) ''/api/v4/''"
    and "normalizeGitLabApiUrl (Some (butlast u)) = butlast (butlast u)"
    and "butlast (butlast u) \<noteq> butlast u"
proof -
  from assms obtain p where u: "u = p @ ''/api/v4//''"
    by (auto simp: endsWith_iff)
  have b: "butlast u = p @ ''/api/v4/''"
    using butlast_snoc_string[of p "''/api/v4/''"] by (simp add: u)
  have bb: "butlast (butlast u) = p @ ''/api/v4''"
    using butlast_snoc_string[of p "''/api/v4''"] by (simp add: b)
  have slash_u: "endsWith u ''/''"
    by (simp add: u endsWith_slash_last)
  have slash_b: "endsWith (butlast u) ''/''"
    by (simp add: b endsWith_slash_last)
  show api_b: "endsWith (butlast u) ''/api/v4/''"
    unfolding b by (rule endsWith_append)
  have api_bb: "endsWith (butlast (butlast u)) ''/api/v4''"
    unfolding bb by (rule endsWith_append)
  have no_api_b: "\<not> endsWith (butlast u) ''/api/v4''"
  proof
    assume "endsWith (butlast u) ''/api/v4''"
    then obtain q where "butlast u = q @ ''/api/v4''"
      by (auto simp: endsWith_iff)
    then have "last (butlast u) = CHR ''4''"
      by simp
    moreover have "last (butlast u) = CHR ''/''"
      by (simp add: b)
    ultimately show False
      by simp
  qed
  have "u \<noteq> []"
    by (simp add: u)
  then show "normalizeGitLabApiUrl (Some u) = butlast u"
    using slash_u api_b no_api_b by (simp add: normalizeGitLabApiUrl_def Let_def)
  have "butlast u \<noteq> []"
    by (simp add: b)
  then show "normalizeGitLabApiUrl (Some (butlast u)) = butlast (butlast u)"
    using slash_b api_bb by (simp add: normalizeGitLabApiUrl_def Let_def)
  show "butlast (butlast u) \<noteq> butlast u"
    unfolding bb unfolding b by simp
qed

text \<open>
  C10, as stated: \<open>normalizeGitLabApiUrl\<close> is idempotent on every input. It is not:
  only one trailing slash is removed, and a remaining \<open>/api/v4/\<close> ending is accepted
  as it is, so \<open>x/api/v4//\<close> is mapped to \<open>x/api/v4/\<close>, which is mapped to
  \<open>x/api/v4\<close>.
\<close>

theorem normalizeGitLabApiUrl_not_idempotent:
  "normalizeGitLabApiUrl (Some (normalizeGitLabApiUrl (Some ''https://gitlab.example.com/api/v4//'')))
     \<noteq> normalizeGitLabApiUrl (Some ''https://gitlab.example.com/api/v4//'')"
  by (simp add: normalizeGitLabApiUrl_def endsWith_def)

text \<open>
  C10, amended: for every input that does not end with \<open>/api/v4//\<close> (the absent
  and the empty input included), the output is a fixed point of the function, ends with
  \<open>/api/v4\<close> and has no trailing slash. For every input that ends with
  \<open>/api/v4//\<close>, the output is the input without its last slash, so it still ends
  with a slash, and it is no fixed point: a second call removes that slash too.
\<close>

theorem normalizeGitLabApiUrl_idempotent_unless_double_slash:
  "(\<not> endsWithApiV4DoubleSlash input \<longrightarrow>
      normalizeGitLabApiUrl (Some (normalizeGitLabApiUrl input)) = normalizeGitLabApiUrl input
      \<and> endsWith (normalizeGitLabApiUrl input) ''/api/v4''
      \<and> \<not> endsWith (normalizeGitLabApiUrl input) ''/'')
   \<and> (endsWith u ''/api/v4//'' \<longrightarrow>
        normalizeGitLabApiUrl (Some u) = butlast u
        \<and> endsWith (normalizeGitLabApiUrl (Some u)) ''/api/v4/''
        \<and> normalizeGitLabApiUrl (Some (normalizeGitLabApiUrl (Some u))) = butlast (butlast u)
        \<and> normalizeGitLabApiUrl (Some (normalizeGitLabApiUrl (Some u)))
            \<noteq> normalizeGitLabApiUrl (Some u))"
proof (intro conjI impI)
  assume a: "\<not> endsWithApiV4DoubleSlash input"
  from normalize_ends_with_api_v4[OF a]
  show "endsWith (normalizeGitLabApiUrl input) ''/api/v4''" .
  from normalize_ends_with_api_v4[OF a] normalize_fixed_point[of "normalizeGitLabApiUrl input"]
  show "normalizeGitLabApiUrl (Some (normalizeGitLabApiUrl input)) = normalizeGitLabApiUrl input"
    and "\<not> endsWith (normalizeGitLabApiUrl input) ''/''"
    by simp_all
next
  assume a: "endsWith u ''/api/v4//''"
  note d = normalize_double_slash[OF a]
  show "normalizeGitLabApiUrl (Some u) = butlast u"
    by (rule d(1))
  show "endsWith (normalizeGitLabApiUrl (Some u)) ''/api/v4/''"
    unfolding d(1) by (rule d(2))
  show "normalizeGitLabApiUrl (Some (normalizeGitLabApiUrl (Some u))) = butlast (butlast u)"
    unfolding d(1) by (rule d(3))
  show "normalizeGitLabApiUrl (Some (normalizeGitLabApiUrl (Some u)))
        \<noteq> normalizeGitLabApiUrl (Some u)"
    unfolding d(1) d(3) by (rule d(4))
qed

theorem normalizeGitLabApiUrl_idempotent_witness:
  "\<not> endsWithApiV4DoubleSlash (Some ''https://gitlab.example.com/'')
   \<and> normalizeGitLabApiUrl
        (Some (normalizeGitLabApiUrl (Some ''https://gitlab.example.com/'')))
      = ''https://gitlab.example.com/api/v4''
   \<and> endsWith ''https://gitlab.example.com/api/v4//'' ''/api/v4//''
   \<and> normalizeGitLabApiUrl (Some ''https://gitlab.example.com/api/v4//'')
      = ''https://gitlab.example.com/api/v4/''
   \<and> normalizeGitLabApiUrl
        (Some (normalizeGitLabApiUrl (Some ''https://gitlab.example.com/api/v4//'')))
      = ''https://gitlab.example.com/api/v4''"
proof -
  have 1: "\<not> endsWithApiV4DoubleSlash (Some ''https://gitlab.example.com/'')"
    by (simp add: endsWithApiV4DoubleSlash_def endsWith_def)
  have 2: "normalizeGitLabApiUrl (Some ''https://gitlab.example.com/'')
           = ''https://gitlab.example.com/api/v4''"
    by (simp add: normalizeGitLabApiUrl_def endsWith_def)
  have 3: "endsWith ''https://gitlab.example.com/api/v4//'' ''/api/v4//''"
    by (simp add: endsWith_def)
  from normalizeGitLabApiUrl_idempotent_unless_double_slash
         [of "Some ''https://gitlab.example.com/''" "''https://gitlab.example.com/api/v4//''"]
       1 3
  have 4: "normalizeGitLabApiUrl
             (Some (normalizeGitLabApiUrl (Some ''https://gitlab.example.com/'')))
           = normalizeGitLabApiUrl (Some ''https://gitlab.example.com/'')"
    and 5: "normalizeGitLabApiUrl (Some ''https://gitlab.example.com/api/v4//'')
            = butlast ''https://gitlab.example.com/api/v4//''"
    and 6: "normalizeGitLabApiUrl
              (Some (normalizeGitLabApiUrl (Some ''https://gitlab.example.com/api/v4//'')))
            = butlast (butlast ''https://gitlab.example.com/api/v4//'')"
    by blast+
  from 4 have 7: "normalizeGitLabApiUrl
             (Some (normalizeGitLabApiUrl (Some ''https://gitlab.example.com/'')))
           = ''https://gitlab.example.com/api/v4''"
    unfolding 2 .
  from 5 have 8: "normalizeGitLabApiUrl (Some ''https://gitlab.example.com/api/v4//'')
            = ''https://gitlab.example.com/api/v4/''"
    by simp
  from 6 have 9: "normalizeGitLabApiUrl
              (Some (normalizeGitLabApiUrl (Some ''https://gitlab.example.com/api/v4//'')))
            = ''https://gitlab.example.com/api/v4''"
    by simp
  from 1 3 7 8 9 show ?thesis
    by blast
qed

end
